theory Spec2Isabelle
  imports Complex_Main
begin

section \<open>JavaScript numbers\<close>

text \<open>
  A JavaScript number is modelled as an exact real or one of the three special values
  of IEEE 754 arithmetic.  The operations follow IEEE 754 on the special values and are
  exact on finite values: rounding, overflow to an infinity and the sign of zero are not
  modelled (a zero divisor counts as \<open>+0\<close>).
\<close>

datatype jsnum = Fin real | PInf | NInf | NaN

fun isFinite :: "jsnum \<Rightarrow> bool" where
  "isFinite (Fin a) = True"
| "isFinite PInf = False"
| "isFinite NInf = False"
| "isFinite NaN = False"

text \<open>
  The arithmetic operators and the comparisons \<open><\<close>, \<open>\<le>\<close> (with \<open>a > b\<close> read as
  \<open>b < a\<close> and \<open>a \<ge> b\<close> as \<open>b \<le> a\<close>) are those of JavaScript: an operation on \<open>NaN\<close>
  gives \<open>NaN\<close>, a comparison with \<open>NaN\<close> is false.  The comparisons form no order, so
  \<open>max\<close> and \<open>min\<close> of the library are not used on these numbers.
\<close>

instantiation jsnum :: "{plus, minus, uminus, times, inverse, abs, ord}"
begin

fun plus_jsnum :: "jsnum \<Rightarrow> jsnum \<Rightarrow> jsnum" where
  "plus_jsnum (Fin a) (Fin b) = Fin (a + b)"
| "plus_jsnum NaN y = NaN"
| "plus_jsnum x NaN = NaN"
| "plus_jsnum PInf NInf = NaN"
| "plus_jsnum NInf PInf = NaN"
| "plus_jsnum PInf y = PInf"
| "plus_jsnum x PInf = PInf"
| "plus_jsnum NInf y = NInf"
| "plus_jsnum x NInf = NInf"

fun uminus_jsnum :: "jsnum \<Rightarrow> jsnum" where
  "uminus_jsnum (Fin a) = Fin (- a)"
| "uminus_jsnum PInf = NInf"
| "uminus_jsnum NInf = PInf"
| "uminus_jsnum NaN = NaN"

definition minus_jsnum :: "jsnum \<Rightarrow> jsnum \<Rightarrow> jsnum" where
  "minus_jsnum x y = x + (- y)"

fun times_jsnum :: "jsnum \<Rightarrow> jsnum \<Rightarrow> jsnum" where
  "times_jsnum (Fin a) (Fin b) = Fin (a * b)"
| "times_jsnum NaN y = NaN"
| "times_jsnum x NaN = NaN"
| "times_jsnum (Fin a) PInf = (if a = 0 then NaN else if 0 < a then PInf else NInf)"
| "times_jsnum (Fin a) NInf = (if a = 0 then NaN else if 0 < a then NInf else PInf)"
| "times_jsnum PInf (Fin b) = (if b = 0 then NaN else if 0 < b then PInf else NInf)"
| "times_jsnum NInf (Fin b) = (if b = 0 then NaN else if 0 < b then NInf else PInf)"
| "times_jsnum PInf PInf = PInf"
| "times_jsnum PInf NInf = NInf"
| "times_jsnum NInf PInf = NInf"
| "times_jsnum NInf NInf = PInf"

fun divide_jsnum :: "jsnum \<Rightarrow> jsnum \<Rightarrow> jsnum" where
  "divide_jsnum (Fin a) (Fin b) =
     (if b \<noteq> 0 then Fin (a / b) else if a = 0 then NaN else if 0 < a then PInf else NInf)"
| "divide_jsnum NaN y = NaN"
| "divide_jsnum x NaN = NaN"
| "divide_jsnum (Fin a) PInf = Fin 0"
| "divide_jsnum (Fin a) NInf = Fin 0"
| "divide_jsnum PInf (Fin b) = (if 0 \<le> b then PInf else NInf)"
| "divide_jsnum NInf (Fin b) = (if 0 \<le> b then NInf else PInf)"
| "divide_jsnum PInf y = NaN"
| "divide_jsnum NInf y = NaN"

definition inverse_jsnum :: "jsnum \<Rightarrow> jsnum" where
  "inverse_jsnum x = divide (Fin 1) x"

fun abs_jsnum :: "jsnum \<Rightarrow> jsnum" where
  "abs_jsnum (Fin a) = Fin \<bar>a\<bar>"
| "abs_jsnum PInf = PInf"
| "abs_jsnum NInf = PInf"
| "abs_jsnum NaN = NaN"

fun less_jsnum :: "jsnum \<Rightarrow> jsnum \<Rightarrow> bool" where
  "less_jsnum (Fin a) (Fin b) = (a < b)"
| "less_jsnum NaN y = False"
| "less_jsnum x NaN = False"
| "less_jsnum PInf y = False"
| "less_jsnum x NInf = False"
| "less_jsnum x PInf = True"
| "less_jsnum NInf y = True"

fun less_eq_jsnum :: "jsnum \<Rightarrow> jsnum \<Rightarrow> bool" where
  "less_eq_jsnum (Fin a) (Fin b) = (a \<le> b)"
| "less_eq_jsnum NaN y = False"
| "less_eq_jsnum x NaN = False"
| "less_eq_jsnum x PInf = True"
| "less_eq_jsnum NInf y = True"
| "less_eq_jsnum PInf y = False"
| "less_eq_jsnum x NInf = False"

instance ..

end

text \<open>\<open>===\<close> on numbers: \<open>NaN\<close> equals nothing, not even itself.\<close>

fun jeq :: "jsnum \<Rightarrow> jsnum \<Rightarrow> bool" where
  "jeq NaN y = False"
| "jeq x NaN = False"
| "jeq x y = (x = y)"

text \<open>\<open>Math.max\<close> and \<open>Math.min\<close> of two numbers: \<open>NaN\<close> if either is.\<close>

fun Math_max :: "jsnum \<Rightarrow> jsnum \<Rightarrow> jsnum" where
  "Math_max NaN y = NaN"
| "Math_max x NaN = NaN"
| "Math_max x y = (if x \<le> y then y else x)"

fun Math_min :: "jsnum \<Rightarrow> jsnum \<Rightarrow> jsnum" where
  "Math_min NaN y = NaN"
| "Math_min x NaN = NaN"
| "Math_min x y = (if x \<le> y then x else y)"

fun Math_sqrt :: "jsnum \<Rightarrow> jsnum" where
  "Math_sqrt (Fin a) = (if a < 0 then NaN else Fin (sqrt a))"
| "Math_sqrt PInf = PInf"
| "Math_sqrt NInf = NaN"
| "Math_sqrt NaN = NaN"

fun Math_exp :: "jsnum \<Rightarrow> jsnum" where
  "Math_exp (Fin a) = Fin (exp a)"
| "Math_exp PInf = PInf"
| "Math_exp NInf = Fin 0"
| "Math_exp NaN = NaN"

fun Math_log :: "jsnum \<Rightarrow> jsnum" where
  "Math_log (Fin a) = (if a < 0 then NaN else if a = 0 then NInf else Fin (ln a))"
| "Math_log PInf = PInf"
| "Math_log NInf = NaN"
| "Math_log NaN = NaN"


section \<open>core/safe-math\<close>

text \<open>
  The functions below take numbers; for a number \<open>v\<close>, \<open>Number(v)\<close> is \<open>v\<close> itself,
  so \<open>safeNumber\<close> keeps a finite number and replaces every other one by the fallback.
\<close>

definition safeNumber :: "jsnum \<Rightarrow> jsnum \<Rightarrow> jsnum" where
  "safeNumber v fallback = (if isFinite v then v else fallback)"

definition safeDivide :: "jsnum \<Rightarrow> jsnum \<Rightarrow> jsnum \<Rightarrow> jsnum" where
  "safeDivide numerator denominator fallback =
     (let a = safeNumber numerator (Fin 0);
          b = safeNumber denominator (Fin 0)
      in if \<bar>b\<bar> < Fin (1 / 10 ^ 10) then fallback
         else (let result = a / b in if isFinite result then result else fallback))"

section \<open>core/normal-distribution\<close>

definition normalCDF :: "jsnum \<Rightarrow> jsnum" where
  "normalCDF x =
     (let z = (if x < Fin 0 then - x else x);
          b0 = Fin 0.2316419;
          b1 = Fin 0.31938153;
          b2 = Fin (- 0.356563782);
          b3 = Fin 1.781477937;
          b4 = Fin (- 1.821255978);
          b5 = Fin 1.330274429;
          t = Fin 1 / (Fin 1 + b0 * z);
          poly = t * ((((b5 * t + b4) * t + b3) * t + b2) * t + b1);
          p = Fin 1 - (Fin 1 / Math_sqrt (Fin 2 * Fin pi)) * Math_exp (Fin (- 0.5) * z * z) * poly
      in if x < Fin 0 then Fin 1 - p else p)"

text \<open>
  The rational approximations of Acklam's algorithm, lines 97 to 147 of
  \<open>normalInverse\<close>, for an argument strictly between 0 and 1.
\<close>

definition acklam :: "jsnum \<Rightarrow> jsnum" where
  "acklam p =
     (let a1 = Fin (- 39.69683028665376); a2 = Fin 220.9460984245205;
          a3 = Fin (- 275.9285104469687); a4 = Fin 138.357751867269;
          a5 = Fin (- 30.66479806614716); a6 = Fin 2.506628277459239;
          b1 = Fin (- 54.47609879822406); b2 = Fin 161.5858368580409;
          b3 = Fin (- 155.6989798598866); b4 = Fin 66.80131188771972;
          b5 = Fin (- 13.28068155288572);
          c1 = Fin (- 0.007784894002430293); c2 = Fin (- 0.3223964580411365);
          c3 = Fin (- 2.400758277161838); c4 = Fin (- 2.549732539343734);
          c5 = Fin 4.374664141464968; c6 = Fin 2.938163982698783;
          d1 = Fin 0.007784695709041462; d2 = Fin 0.3224671290700398;
          d3 = Fin 2.445134137142996; d4 = Fin 3.754408661907416;
          x_low = Fin 0.02425;
          x_high = Fin 1 - x_low
      in if p < x_low then
           (let q = Math_sqrt (Fin (- 2) * Math_log p)
            in (((((c1 * q + c2) * q + c3) * q + c4) * q + c5) * q + c6) /
               ((((d1 * q + d2) * q + d3) * q + d4) * q + Fin 1))
         else if p \<le> x_high then
           (let q = p - Fin 0.5; r = q * q
            in ((((((a1 * r + a2) * r + a3) * r + a4) * r + a5) * r + a6) * q) /
               (((((b1 * r + b2) * r + b3) * r + b4) * r + b5) * r + Fin 1))
         else
           (let q = Math_sqrt (Fin (- 2) * Math_log (Fin 1 - p))
            in - (((((c1 * q + c2) * q + c3) * q + c4) * q + c5) * q + c6) /
               ((((d1 * q + d2) * q + d3) * q + d4) * q + Fin 1)))"

text \<open>
  \<open>normalInverse\<close> consults a process-wide LRU cache keyed by \<open>p.toFixed(10)\<close>.  The
  parameter \<open>cacheGet\<close> stands for the state of that cache at the call: \<open>cacheGet p\<close> is
  what \<open>normalInverseCache.get(p.toFixed(10))\<close> returns, \<open>None\<close> for \<open>undefined\<close>.
  The write to the cache after a miss does not change the value returned by the call and
  is left out.
\<close>

definition normalInverse :: "(jsnum \<Rightarrow> jsnum option) \<Rightarrow> jsnum \<Rightarrow> jsnum" where
  "normalInverse cacheGet p =
     (if p \<le> Fin 0 then NInf
      else if p \<ge> Fin 1 then PInf
      else (case cacheGet p of
              Some cached \<Rightarrow> cached
            | None \<Rightarrow> acklam p))"

section \<open>core/confidence-interval\<close>

record wilson_ci =
  lower :: jsnum
  upper :: jsnum

definition calculateWilsonCI :: "jsnum \<Rightarrow> jsnum \<Rightarrow> jsnum \<Rightarrow> wilson_ci" where
  "calculateWilsonCI x0 n0 z =
     (let x = safeNumber x0 (Fin 0);
          n = safeNumber n0 (Fin 1)
      in if jeq n (Fin 0) then \<lparr>lower = Fin 0, upper = Fin 0\<rparr>
         else
          (let p = safeDivide x n (Fin 0);
               z2 = z * z;
               denom = Fin 1 + safeDivide z2 n (Fin 0);
               center = safeDivide (p + z2 / (Fin 2 * n)) denom p;
               sqrtTerm = (p * (Fin 1 - p)) / n + z2 / (Fin 4 * n * n);
               safeSqrtTerm = Math_max (Fin 0) sqrtTerm;
               margin = safeDivide (z * Math_sqrt safeSqrtTerm) denom (Fin 0);
               safeMargin = Math_min margin (Fin 1)
           in \<lparr>lower = Math_max (Fin 0) (center - safeMargin),
               upper = Math_min (Fin 1) (center + safeMargin)\<rparr>))"

section \<open>result-validation/two-group: Farrington-Manning\<close>

record fm_rmle =
  p1_rmle :: jsnum
  p2_rmle :: jsnum

text \<open>
  The Newton-Raphson loop \<open>for (iter = 0; iter < 20; iter++)\<close> of \<open>calculateFMRMLE\<close>.
  The first argument counts the iterations still allowed; the result is the value of
  \<open>p1_est\<close> when the loop is left (by \<open>break\<close> or because no iteration is left).
\<close>

fun fmNewton :: "nat \<Rightarrow> jsnum \<Rightarrow> jsnum \<Rightarrow> jsnum \<Rightarrow> jsnum \<Rightarrow> jsnum \<Rightarrow> jsnum \<Rightarrow> jsnum \<Rightarrow> jsnum" where
  "fmNewton 0 p1_obs p2_obs n1 n2 delta0 p_pooled p1_est = p1_est"
| "fmNewton (Suc k) p1_obs p2_obs n1 n2 delta0 p_pooled p1_est =
     (let p2_est = p1_est + delta0
      in if p2_est \<le> Fin 0 \<or> p2_est \<ge> Fin 1 \<or> p1_est \<le> Fin 0 \<or> p1_est \<ge> Fin 1 then
           Math_max (Fin 0.001) (Math_min (Fin 0.999 - delta0) (p_pooled - delta0 / Fin 2))
         else
          (let score =
                 n1 * (p1_obs / p1_est - (Fin 1 - p1_obs) / (Fin 1 - p1_est)) +
                 n2 * (p2_obs / p2_est - (Fin 1 - p2_obs) / (Fin 1 - p2_est));
               info =
                 n1 * (p1_obs / (p1_est * p1_est) +
                       (Fin 1 - p1_obs) / ((Fin 1 - p1_est) * (Fin 1 - p1_est))) +
                 n2 * (p2_obs / (p2_est * p2_est) +
                       (Fin 1 - p2_obs) / ((Fin 1 - p2_est) * (Fin 1 - p2_est)));
               delta_p = score / info;
               p1_new = p1_est + delta_p
           in if \<bar>delta_p\<bar> < Fin (1 / 10 ^ 8) then p1_new
              else fmNewton k p1_obs p2_obs n1 n2 delta0 p_pooled
                     (Math_max (Fin 0.001)
                        (Math_min (Fin 0.999 - Math_max (Fin 0) delta0) p1_new))))"

definition calculateFMRMLE :: "jsnum \<Rightarrow> jsnum \<Rightarrow> jsnum \<Rightarrow> jsnum \<Rightarrow> jsnum \<Rightarrow> fm_rmle" where
  "calculateFMRMLE p1_obs p2_obs n1 n2 delta0 =
     (let p_pooled = (n1 * p1_obs + n2 * p2_obs) / (n1 + n2);
          p1_start = Math_max (Fin 0.001) (Math_min (Fin 0.999) (p_pooled - delta0 / Fin 2));
          p1_est = fmNewton 20 p1_obs p2_obs n1 n2 delta0 p_pooled p1_start;
          p2_est = Math_max (Fin 0.001) (Math_min (Fin 0.999) (p1_est + delta0))
      in \<lparr>p1_rmle = p1_est, p2_rmle = p2_est\<rparr>)"

section \<open>result-validation/two-group: Miettinen-Nurminen\<close>

record mn_mle =
  p1_mle :: jsnum
  p2_mle :: jsnum

text \<open>The closure \<open>scoreFunc\<close> of \<open>calculateMNConstrainedMLE\<close>, with the variables it captures.\<close>

definition scoreFunc :: "jsnum \<Rightarrow> jsnum \<Rightarrow> jsnum \<Rightarrow> jsnum \<Rightarrow> jsnum \<Rightarrow> jsnum \<Rightarrow> jsnum" where
  "scoreFunc x1 n1 x2 n2 delta0 p1 =
     (let p2 = p1 + delta0
      in x1 / p1 - (n1 - x1) / (Fin 1 - p1) + x2 / p2 - (n2 - x2) / (Fin 1 - p2))"

text \<open>
  The bisection loop \<open>for (i = 0; i < 100; i++)\<close> of \<open>calculateMNConstrainedMLE\<close> together
  with the return that follows it; the first argument counts the iterations still allowed.
\<close>

fun mnBisect :: "nat \<Rightarrow> jsnum \<Rightarrow> jsnum \<Rightarrow> jsnum \<Rightarrow> jsnum \<Rightarrow> jsnum \<Rightarrow> jsnum \<Rightarrow> jsnum \<Rightarrow> mn_mle" where
  "mnBisect 0 x1 n1 x2 n2 delta0 lo hi =
     (let p1_est = (lo + hi) / Fin 2
      in \<lparr>p1_mle = p1_est, p2_mle = p1_est + delta0\<rparr>)"
| "mnBisect (Suc k) x1 n1 x2 n2 delta0 lo hi =
     (let mid = (lo + hi) / Fin 2;
          score_mid = scoreFunc x1 n1 x2 n2 delta0 mid
      in if \<bar>score_mid\<bar> < Fin (1 / 10 ^ 12) \<or> \<bar>hi - lo\<bar> < Fin (1 / 10 ^ 12) then
           \<lparr>p1_mle = mid, p2_mle = mid + delta0\<rparr>
         else if score_mid > Fin 0 then mnBisect k x1 n1 x2 n2 delta0 mid hi
         else mnBisect k x1 n1 x2 n2 delta0 lo mid)"

definition calculateMNConstrainedMLE :: "jsnum \<Rightarrow> jsnum \<Rightarrow> jsnum \<Rightarrow> jsnum \<Rightarrow> jsnum \<Rightarrow> mn_mle" where
  "calculateMNConstrainedMLE x1 n1 x2 n2 delta0 =
     (let N = n1 + n2
      in if \<bar>delta0\<bar> < Fin (1 / 10 ^ 10) then
           (let p_pooled = (x1 + x2) / N in \<lparr>p1_mle = p_pooled, p2_mle = p_pooled\<rparr>)
         else
          (let p1_min = Math_max (Fin (1 / 10 ^ 8)) (- delta0 + Fin (1 / 10 ^ 8));
               p1_max = Math_min (Fin 1 - Fin (1 / 10 ^ 8)) (Fin 1 - delta0 - Fin (1 / 10 ^ 8))
           in if p1_min \<ge> p1_max then
                (let p1_est = Math_max (Fin (1 / 10 ^ 8))
                                (Math_min (Fin 1 - Fin (1 / 10 ^ 8)) ((p1_min + p1_max) / Fin 2));
                     p2_est = Math_max (Fin (1 / 10 ^ 8))
                                (Math_min (Fin 1 - Fin (1 / 10 ^ 8)) (p1_est + delta0))
                 in \<lparr>p1_mle = p1_est, p2_mle = p2_est\<rparr>)
              else
               (let score_lo = scoreFunc x1 n1 x2 n2 delta0 p1_min;
                    score_hi = scoreFunc x1 n1 x2 n2 delta0 p1_max
                in if score_lo \<le> Fin 0 then \<lparr>p1_mle = p1_min, p2_mle = p1_min + delta0\<rparr>
                   else if score_hi \<ge> Fin 0 then \<lparr>p1_mle = p1_max, p2_mle = p1_max + delta0\<rparr>
                   else mnBisect 100 x1 n1 x2 n2 delta0 p1_min p1_max)))"


text \<open>
  The variance \<open>var_mn\<close> that \<open>calculateMNResult\<close> and the closure \<open>calcZ\<close> of
  \<open>findMNCIBound\<close> both compute from the constrained MLE.
\<close>

definition var_mn :: "jsnum \<Rightarrow> jsnum \<Rightarrow> mn_mle \<Rightarrow> jsnum" where
  "var_mn n1 n2 mle =
     (let N = n1 + n2;
          correction = N / (N - Fin 1)
      in correction *
           ((p1_mle mle * (Fin 1 - p1_mle mle)) / n1 + (p2_mle mle * (Fin 1 - p2_mle mle)) / n2))"

text \<open>The closure \<open>calcZ\<close> of \<open>findMNCIBound\<close>, with the variables it captures.\<close>

definition calcZ :: "jsnum \<Rightarrow> jsnum \<Rightarrow> jsnum \<Rightarrow> jsnum \<Rightarrow> jsnum \<Rightarrow> jsnum \<Rightarrow> jsnum" where
  "calcZ x1 n1 x2 n2 diff delta0 =
     (let mle = calculateMNConstrainedMLE x1 n1 x2 n2 delta0;
          se_mn = Math_sqrt (Math_max (var_mn n1 n2 mle) (Fin (1 / 10 ^ 12)))
      in (diff - delta0) / se_mn)"

text \<open>
  The two search loops of \<open>findMNCIBound\<close>; the first argument counts the iterations
  still allowed, the result is the pair \<open>(lo, hi)\<close> when the loop is left.
\<close>

fun mnLowerLoop :: "nat \<Rightarrow> jsnum \<Rightarrow> jsnum \<Rightarrow> jsnum \<Rightarrow> jsnum \<Rightarrow> jsnum \<Rightarrow> jsnum \<Rightarrow> jsnum \<Rightarrow> jsnum \<Rightarrow> jsnum \<times> jsnum" where
  "mnLowerLoop 0 x1 n1 x2 n2 diff z_alpha lo hi = (lo, hi)"
| "mnLowerLoop (Suc k) x1 n1 x2 n2 diff z_alpha lo hi =
     (let mid = (lo + hi) / Fin 2;
          z = calcZ x1 n1 x2 n2 diff mid;
          (lo', hi') = (if z > z_alpha then (mid, hi) else (lo, mid))
      in if \<bar>hi' - lo'\<bar> < Fin (1 / 10 ^ 8) then (lo', hi')
         else mnLowerLoop k x1 n1 x2 n2 diff z_alpha lo' hi')"

fun mnUpperLoop :: "nat \<Rightarrow> jsnum \<Rightarrow> jsnum \<Rightarrow> jsnum \<Rightarrow> jsnum \<Rightarrow> jsnum \<Rightarrow> jsnum \<Rightarrow> jsnum \<Rightarrow> jsnum \<Rightarrow> jsnum \<times> jsnum" where
  "mnUpperLoop 0 x1 n1 x2 n2 diff z_alpha lo hi = (lo, hi)"
| "mnUpperLoop (Suc k) x1 n1 x2 n2 diff z_alpha lo hi =
     (let mid = (lo + hi) / Fin 2;
          z = calcZ x1 n1 x2 n2 diff mid;
          (lo', hi') = (if z < - z_alpha then (lo, mid) else (mid, hi))
      in if \<bar>hi' - lo'\<bar> < Fin (1 / 10 ^ 8) then (lo', hi')
         else mnUpperLoop k x1 n1 x2 n2 diff z_alpha lo' hi')"

definition findMNCIBound :: "jsnum \<Rightarrow> jsnum \<Rightarrow> jsnum \<Rightarrow> jsnum \<Rightarrow> jsnum \<Rightarrow> jsnum \<Rightarrow> string \<Rightarrow> jsnum" where
  "findMNCIBound x1 n1 x2 n2 diff z_alpha bound =
     (if bound = ''lower'' then
        fst (mnLowerLoop 100 x1 n1 x2 n2 diff z_alpha (Math_max (Fin (- 0.9999)) (diff - Fin 0.5)) diff)
      else
        snd (mnUpperLoop 100 x1 n1 x2 n2 diff z_alpha diff (Math_min (Fin 0.9999) (diff + Fin 0.5))))"

record score_result =
  ci_lower :: jsnum
  ci_upper :: jsnum
  z_score :: jsnum
  p_value :: jsnum
  se :: jsnum

definition calculateMNResult :: "jsnum \<Rightarrow> jsnum \<Rightarrow> jsnum \<Rightarrow> jsnum \<Rightarrow> jsnum \<Rightarrow> jsnum \<Rightarrow> score_result" where
  "calculateMNResult x1 n1 x2 n2 delta0 z_alpha =
     (let p1_obs = x1 / n1;
          p2_obs = x2 / n2;
          diff = p2_obs - p1_obs;
          mle = calculateMNConstrainedMLE x1 n1 x2 n2 delta0;
          se_mn = Math_sqrt (var_mn n1 n2 mle);
          z = (if se_mn > Fin 0 then (diff - delta0) / se_mn else Fin 0)
      in \<lparr>ci_lower = findMNCIBound x1 n1 x2 n2 diff z_alpha ''lower'',
          ci_upper = findMNCIBound x1 n1 x2 n2 diff z_alpha ''upper'',
          z_score = z,
          p_value = Fin 1 - normalCDF z,
          se = se_mn\<rparr>)"

text \<open>The sum \<open>var1 + var2\<close> under the square root of \<open>se_h0\<close> in \<open>calculateFMResult\<close>.\<close>

definition var_h0 :: "jsnum \<Rightarrow> jsnum \<Rightarrow> fm_rmle \<Rightarrow> jsnum" where
  "var_h0 n1 n2 rmle =
     (let var1 = (p1_rmle rmle * (Fin 1 - p1_rmle rmle)) / n1;
          var2 = (p2_rmle rmle * (Fin 1 - p2_rmle rmle)) / n2
      in var1 + var2)"

definition calculateFMResult :: "jsnum \<Rightarrow> jsnum \<Rightarrow> jsnum \<Rightarrow> jsnum \<Rightarrow> jsnum \<Rightarrow> jsnum \<Rightarrow> score_result" where
  "calculateFMResult p1 p2 n1 n2 delta0 z_alpha =
     (let diff = p2 - p1;
          rmle = calculateFMRMLE p1 p2 n1 n2 delta0;
          se_h0 = Math_sqrt (var_h0 n1 n2 rmle);
          z = (if se_h0 > Fin 0 then (diff - delta0) / se_h0 else Fin 0);
          var1_obs = (p1 * (Fin 1 - p1)) / n1;
          var2_obs = (p2 * (Fin 1 - p2)) / n2;
          se_obs = Math_sqrt (var1_obs + var2_obs)
      in \<lparr>ci_lower = diff - z_alpha * se_obs,
          ci_upper = diff + z_alpha * se_obs,
          z_score = z,
          p_value = Fin 1 - normalCDF z,
          se = se_h0\<rparr>)"

section \<open>result-validation/two-group: the result functions for proportions\<close>

text \<open>
  The object returned by \<open>calculateNIResult\<close>, \<open>calculateSupResult\<close> and
  \<open>calculateEqResult\<close>.  The early returns leave the three metadata fields out:
  \<open>testStatisticType\<close> is then \<open>None\<close>.  Where present it is \<open>''Z''\<close>, \<open>df\<close> is
  \<open>null\<close>, and \<open>testStatisticLabel\<close> is a text formatted from the statistics; the
  latter two are not part of the record.
\<close>

record trial_result =
  p1 :: jsnum
  p2 :: jsnum
  diff :: jsnum
  ci_lower :: jsnum
  ci_upper :: jsnum
  p_value :: jsnum
  testStatistic :: jsnum
  isNonInferior :: bool
  testStatisticType :: "string option"

text \<open>The object of the early returns: zeros, \<open>p_value\<close> 1, no success, no metadata.\<close>

definition zeroResult :: trial_result where
  "zeroResult =
     \<lparr>p1 = Fin 0, p2 = Fin 0, diff = Fin 0, ci_lower = Fin 0, ci_upper = Fin 0,
      p_value = Fin 1, testStatistic = Fin 0, isNonInferior = False,
      testStatisticType = None\<rparr>"

text \<open>
  In the three functions below \<open>cacheGet\<close> is the state of the quantile cache (see
  \<open>normalInverse\<close>), \<open>useContinuity\<close> is the flag after \<open>useContinuity || false\<close>, and
  \<open>method0\<close> is the method selector, the empty text standing for an absent one.  The
  arguments are numbers; the parameters the source reassigns carry the suffix \<open>_in\<close>
  before \<open>safeNumber\<close>.  The locals \<open>p1\<close>, \<open>p2\<close> and \<open>diff\<close> are written \<open>p1v\<close>,
  \<open>p2v\<close> and \<open>d\<close>, their names being fields of the result; \<open>se_w\<close> is the local \<open>se\<close>.
\<close>

definition calculateNIResult ::
  "(jsnum \<Rightarrow> jsnum option) \<Rightarrow> jsnum \<Rightarrow> jsnum \<Rightarrow> jsnum \<Rightarrow> jsnum \<Rightarrow> jsnum \<Rightarrow> jsnum \<Rightarrow> bool \<Rightarrow> string \<Rightarrow> trial_result" where
  "calculateNIResult cacheGet n1_in s1_in n2_in s2_in delta_in alpha_in useContinuity method0 =
     (let n1 = safeNumber n1_in (Fin 1);
          s1 = safeNumber s1_in (Fin 0);
          n2 = safeNumber n2_in (Fin 1);
          s2 = safeNumber s2_in (Fin 0);
          delta = safeNumber delta_in (Fin 0);
          alpha = safeNumber alpha_in (Fin 0);
          method = (if method0 = [] then ''wald'' else method0);
          p1v = (if useContinuity then safeDivide (s1 + Fin 0.5) (n1 + Fin 1) (Fin 0)
                 else safeDivide s1 n1 (Fin 0));
          p2v = (if useContinuity then safeDivide (s2 + Fin 0.5) (n2 + Fin 1) (Fin 0)
                 else safeDivide s2 n2 (Fin 0));
          d = p2v - p1v;
          z_alpha = normalInverse cacheGet (Fin 1 - alpha)
      in if \<not> isFinite z_alpha then zeroResult
         else if method = ''fm'' then
           (let fmResult = calculateFMResult p1v p2v n1 n2 (- delta) z_alpha
            in \<lparr>p1 = p1v, p2 = p2v, diff = d,
                ci_lower = score_result.ci_lower fmResult,
                ci_upper = score_result.ci_upper fmResult,
                p_value = score_result.p_value fmResult,
                testStatistic = z_score fmResult,
                isNonInferior = (score_result.ci_lower fmResult > - delta),
                testStatisticType = Some ''Z''\<rparr>)
         else if method = ''wilson'' then
           (let wilson1 = calculateWilsonCI s1 n1 z_alpha;
                wilson2 = calculateWilsonCI s2 n2 z_alpha;
                l1 = lower wilson1; u1 = upper wilson1;
                l2 = lower wilson2; u2 = upper wilson2;
                cl = d - Math_sqrt ((p2v - l2) * (p2v - l2) + (u1 - p1v) * (u1 - p1v));
                cu = d + Math_sqrt ((u2 - p2v) * (u2 - p2v) + (p1v - l1) * (p1v - l1));
                variance1 = safeDivide (p1v * (Fin 1 - p1v)) n1 (Fin 0);
                variance2 = safeDivide (p2v * (Fin 1 - p2v)) n2 (Fin 0);
                se_w = Math_sqrt (variance1 + variance2);
                z = safeDivide (d + delta) se_w (Fin 0)
            in \<lparr>p1 = p1v, p2 = p2v, diff = d, ci_lower = cl, ci_upper = cu,
                p_value = Fin 1 - normalCDF z, testStatistic = z,
                isNonInferior = (cl > - delta),
                testStatisticType = Some ''Z''\<rparr>)
         else if method = ''mn'' then
           (let mnResult = calculateMNResult s1 n1 s2 n2 (- delta) z_alpha
            in \<lparr>p1 = p1v, p2 = p2v, diff = d,
                ci_lower = score_result.ci_lower mnResult,
                ci_upper = score_result.ci_upper mnResult,
                p_value = score_result.p_value mnResult,
                testStatistic = z_score mnResult,
                isNonInferior = (score_result.ci_lower mnResult > - delta),
                testStatisticType = Some ''Z''\<rparr>)
         else
           (let variance1 = safeDivide (p1v * (Fin 1 - p1v)) n1 (Fin 0);
                variance2 = safeDivide (p2v * (Fin 1 - p2v)) n2 (Fin 0);
                se_w = Math_sqrt (variance1 + variance2)
            in if \<not> isFinite se_w \<or> jeq se_w (Fin 0) then zeroResult
               else
                (let cl = d - z_alpha * se_w;
                     cu = d + z_alpha * se_w;
                     z = safeDivide (d + delta) se_w (Fin 0)
                 in \<lparr>p1 = p1v, p2 = p2v, diff = d, ci_lower = cl, ci_upper = cu,
                     p_value = Fin 1 - normalCDF z, testStatistic = z,
                     isNonInferior = (cl > - delta),
                     testStatisticType = Some ''Z''\<rparr>)))"

definition calculateSupResult ::
  "(jsnum \<Rightarrow> jsnum option) \<Rightarrow> jsnum \<Rightarrow> jsnum \<Rightarrow> jsnum \<Rightarrow> jsnum \<Rightarrow> jsnum \<Rightarrow> bool \<Rightarrow> string \<Rightarrow> trial_result" where
  "calculateSupResult cacheGet n1_in s1_in n2_in s2_in alpha_in useContinuity method0 =
     (let n1 = safeNumber n1_in (Fin 1);
          s1 = safeNumber s1_in (Fin 0);
          n2 = safeNumber n2_in (Fin 1);
          s2 = safeNumber s2_in (Fin 0);
          alpha = safeNumber alpha_in (Fin 0);
          method = (if method0 = [] then ''wald'' else method0);
          p1v = (if useContinuity then safeDivide (s1 + Fin 0.5) (n1 + Fin 1) (Fin 0)
                 else safeDivide s1 n1 (Fin 0));
          p2v = (if useContinuity then safeDivide (s2 + Fin 0.5) (n2 + Fin 1) (Fin 0)
                 else safeDivide s2 n2 (Fin 0));
          d = p2v - p1v;
          z_alpha = normalInverse cacheGet (Fin 1 - alpha)
      in if \<not> isFinite z_alpha then zeroResult
         else if method = ''fm'' then
           (let fmResult = calculateFMResult p1v p2v n1 n2 (Fin 0) z_alpha
            in \<lparr>p1 = p1v, p2 = p2v, diff = d,
                ci_lower = score_result.ci_lower fmResult,
                ci_upper = score_result.ci_upper fmResult,
                p_value = score_result.p_value fmResult,
                testStatistic = z_score fmResult,
                isNonInferior = (score_result.ci_lower fmResult > Fin 0),
                testStatisticType = Some ''Z''\<rparr>)
         else if method = ''wilson'' then
           (let wilson1 = calculateWilsonCI s1 n1 z_alpha;
                wilson2 = calculateWilsonCI s2 n2 z_alpha;
                l1 = lower wilson1; u1 = upper wilson1;
                l2 = lower wilson2; u2 = upper wilson2;
                cl = d - Math_sqrt ((p2v - l2) * (p2v - l2) + (u1 - p1v) * (u1 - p1v));
                cu = d + Math_sqrt ((u2 - p2v) * (u2 - p2v) + (p1v - l1) * (p1v - l1));
                variance1 = safeDivide (p1v * (Fin 1 - p1v)) n1 (Fin 0);
                variance2 = safeDivide (p2v * (Fin 1 - p2v)) n2 (Fin 0);
                se_w = Math_sqrt (variance1 + variance2);
                z = safeDivide d se_w (Fin 0)
            in \<lparr>p1 = p1v, p2 = p2v, diff = d, ci_lower = cl, ci_upper = cu,
                p_value = Fin 1 - normalCDF z, testStatistic = z,
                isNonInferior = (cl > Fin 0),
                testStatisticType = Some ''Z''\<rparr>)
         else if method = ''mn'' then
           (let mnResult = calculateMNResult s1 n1 s2 n2 (Fin 0) z_alpha
            in \<lparr>p1 = p1v, p2 = p2v, diff = d,
                ci_lower = score_result.ci_lower mnResult,
                ci_upper = score_result.ci_upper mnResult,
                p_value = score_result.p_value mnResult,
                testStatistic = z_score mnResult,
                isNonInferior = (score_result.ci_lower mnResult > Fin 0),
                testStatisticType = Some ''Z''\<rparr>)
         else
           (let variance1 = safeDivide (p1v * (Fin 1 - p1v)) n1 (Fin 0);
                variance2 = safeDivide (p2v * (Fin 1 - p2v)) n2 (Fin 0);
                se_w = Math_sqrt (variance1 + variance2)
            in if \<not> isFinite se_w \<or> jeq se_w (Fin 0) then zeroResult
               else
                (let cl = d - z_alpha * se_w;
                     cu = d + z_alpha * se_w;
                     z = safeDivide d se_w (Fin 0)
                 in \<lparr>p1 = p1v, p2 = p2v, diff = d, ci_lower = cl, ci_upper = cu,
                     p_value = Fin 1 - normalCDF z, testStatistic = z,
                     isNonInferior = (cl > Fin 0),
                     testStatisticType = Some ''Z''\<rparr>)))"

text \<open>
  \<open>calculateEqResult\<close> first fixes the interval and the standard error by method
  (\<open>eqInterval\<close>, \<open>None\<close> for the early return of a branch), then runs the two one-sided
  tests on them (\<open>eqTost\<close>, lines 817 to 840).
\<close>

definition eqInterval ::
  "string \<Rightarrow> jsnum \<Rightarrow> jsnum \<Rightarrow> jsnum \<Rightarrow> jsnum \<Rightarrow> jsnum \<Rightarrow> jsnum \<Rightarrow> jsnum \<Rightarrow> jsnum \<Rightarrow> (jsnum \<times> jsnum \<times> jsnum) option" where
  "eqInterval method n1 s1 n2 s2 p1v p2v d z_alpha =
     (if method = ''fm'' then
        (let var1 = safeDivide (p1v * (Fin 1 - p1v)) n1 (Fin 0);
             var2 = safeDivide (p2v * (Fin 1 - p2v)) n2 (Fin 0);
             se_w = Math_sqrt (var1 + var2)
         in if \<not> isFinite se_w \<or> jeq se_w (Fin 0) then None
            else Some (d - z_alpha * se_w, d + z_alpha * se_w, se_w))
      else if method = ''wilson'' then
        (let wilson1 = calculateWilsonCI s1 n1 z_alpha;
             wilson2 = calculateWilsonCI s2 n2 z_alpha;
             l1 = lower wilson1; u1 = upper wilson1;
             l2 = lower wilson2; u2 = upper wilson2;
             cl = d - Math_sqrt ((p2v - l2) * (p2v - l2) + (u1 - p1v) * (u1 - p1v));
             cu = d + Math_sqrt ((u2 - p2v) * (u2 - p2v) + (p1v - l1) * (p1v - l1));
             variance1 = safeDivide (p1v * (Fin 1 - p1v)) n1 (Fin 0);
             variance2 = safeDivide (p2v * (Fin 1 - p2v)) n2 (Fin 0)
         in Some (cl, cu, Math_sqrt (variance1 + variance2)))
      else if method = ''mn'' then
        (let mnResult = calculateMNResult s1 n1 s2 n2 (Fin 0) z_alpha
         in Some (score_result.ci_lower mnResult, score_result.ci_upper mnResult, se mnResult))
      else
        (let variance1 = safeDivide (p1v * (Fin 1 - p1v)) n1 (Fin 0);
             variance2 = safeDivide (p2v * (Fin 1 - p2v)) n2 (Fin 0);
             se_w = Math_sqrt (variance1 + variance2)
         in if \<not> isFinite se_w \<or> jeq se_w (Fin 0) then None
            else Some (d - z_alpha * se_w, d + z_alpha * se_w, se_w)))"

definition eqTost :: "jsnum \<Rightarrow> jsnum \<Rightarrow> jsnum \<Rightarrow> jsnum \<Rightarrow> jsnum \<Rightarrow> jsnum \<Rightarrow> jsnum \<Rightarrow> trial_result" where
  "eqTost p1v p2v d delta cl cu se_w =
     (let z1 = safeDivide (d + delta) se_w (Fin 0);
          z2 = safeDivide (d - delta) se_w (Fin 0);
          p1_value = Fin 1 - normalCDF z1;
          p2_value = normalCDF z2
      in \<lparr>p1 = p1v, p2 = p2v, diff = d, ci_lower = cl, ci_upper = cu,
          p_value = Math_max p1_value p2_value,
          testStatistic = (z1 + z2) / Fin 2,
          isNonInferior = (cl > - delta \<and> cu < delta),
          testStatisticType = Some ''Z''\<rparr>)"

definition calculateEqResult ::
  "(jsnum \<Rightarrow> jsnum option) \<Rightarrow> jsnum \<Rightarrow> jsnum \<Rightarrow> jsnum \<Rightarrow> jsnum \<Rightarrow> jsnum \<Rightarrow> jsnum \<Rightarrow> bool \<Rightarrow> string \<Rightarrow> trial_result" where
  "calculateEqResult cacheGet n1_in s1_in n2_in s2_in delta_in alpha_in useContinuity method0 =
     (let n1 = safeNumber n1_in (Fin 1);
          s1 = safeNumber s1_in (Fin 0);
          n2 = safeNumber n2_in (Fin 1);
          s2 = safeNumber s2_in (Fin 0);
          delta = safeNumber delta_in (Fin 0);
          alpha = safeNumber alpha_in (Fin 0);
          method = (if method0 = [] then ''wald'' else method0);
          p1v = (if useContinuity then safeDivide (s1 + Fin 0.5) (n1 + Fin 1) (Fin 0)
                 else safeDivide s1 n1 (Fin 0));
          p2v = (if useContinuity then safeDivide (s2 + Fin 0.5) (n2 + Fin 1) (Fin 0)
                 else safeDivide s2 n2 (Fin 0));
          d = p2v - p1v;
          z_alpha = normalInverse cacheGet (Fin 1 - alpha / Fin 2)
      in if \<not> isFinite z_alpha then zeroResult
         else (case eqInterval method n1 s1 n2 s2 p1v p2v d z_alpha of
                 None \<Rightarrow> zeroResult
               | Some (cl, cu, se_w) \<Rightarrow> eqTost p1v p2v d delta cl cu se_w))"

section \<open>An auxiliary quantity\<close>

text \<open>
  The amount that \<open>normalCDF\<close> subtracts from 1 for a finite argument \<open>z \<ge> 0\<close>: the
  normal density times the polynomial of the approximation, in real arithmetic.  It
  serves the proofs only.
\<close>

definition hartTail :: "real \<Rightarrow> real" where
  "hartTail z =
     (let t = 1 / (1 + 0.2316419 * z);
          poly = t * ((((1.330274429 * t + (- 1.821255978)) * t + 1.781477937) * t +
                        (- 0.356563782)) * t + 0.31938153)
      in (1 / sqrt (2 * pi)) * exp (- 0.5 * z * z) * poly)"

section \<open>Arithmetic on finite numbers\<close>

lemma Fin_minus [simp]: "Fin a - Fin b = Fin (a - b)"
  by (simp add: minus_jsnum_def)

lemma Math_max_Fin [simp]: "Math_max (Fin a) (Fin b) = Fin (max a b)"
  by (simp add: max_def)

lemma Math_min_Fin [simp]: "Math_min (Fin a) (Fin b) = Fin (min a b)"
  by (simp add: min_def)

lemma Fin_div: "b \<noteq> 0 \<Longrightarrow> Fin a / Fin b = Fin (a / b)"
  by simp

section \<open>The Newton-Raphson solver on well-formed input\<close>




section \<open>The bisection solver\<close>

lemma mnBisect_form:
  "\<exists>m. mnBisect k x1 n1 x2 n2 (Fin d) (Fin lo) (Fin hi) = \<lparr>p1_mle = Fin m, p2_mle = Fin (m + d)\<rparr>"
proof (induction k arbitrary: lo hi)
  case 0
  show ?case by (rule exI [of _ "(lo + hi) / 2"]) (simp add: Let_def)
next
  case (Suc k)
  let ?m = "(lo + hi) / 2"
  let ?s = "scoreFunc x1 n1 x2 n2 (Fin d) (Fin ?m)"
  have half: "Fin (lo + hi) / Fin 2 = Fin ?m" by simp
  have eq: "mnBisect (Suc k) x1 n1 x2 n2 (Fin d) (Fin lo) (Fin hi) =
      (if \<bar>?s\<bar> < Fin (1 / 10 ^ 12) \<or> \<bar>Fin hi - Fin lo\<bar> < Fin (1 / 10 ^ 12) then
         \<lparr>p1_mle = Fin ?m, p2_mle = Fin (?m + d)\<rparr>
       else if ?s > Fin 0 then mnBisect k x1 n1 x2 n2 (Fin d) (Fin ?m) (Fin hi)
       else mnBisect k x1 n1 x2 n2 (Fin d) (Fin lo) (Fin ?m))"
    by (simp only: mnBisect.simps Let_def half plus_jsnum.simps)
  show ?case
  proof (cases "\<bar>?s\<bar> < Fin (1 / 10 ^ 12) \<or> \<bar>Fin hi - Fin lo\<bar> < Fin (1 / 10 ^ 12)")
    case True
    then show ?thesis by (intro exI [of _ ?m]) (simp only: eq if_True)
  next
    case False
    then show ?thesis
      using Suc.IH [of ?m hi] Suc.IH [of lo ?m]
      by (cases "?s > Fin 0") (simp_all only: eq if_False if_True)
  qed
qed

lemma scoreFunc_Fin:
  assumes "0 < p" "p < 1" "0 < p + d" "p + d < 1"
  shows "scoreFunc (Fin x1) (Fin n1) (Fin x2) (Fin n2) (Fin d) (Fin p) =
           Fin (x1 / p - (n1 - x1) / (1 - p) + x2 / (p + d) - (n2 - x2) / (1 - (p + d)))"
  using assms by (simp add: scoreFunc_def Let_def)

text \<open>With counts between 0 and the group sizes, the score does not increase in \<open>p1\<close>.\<close>

lemma score_antimono:
  fixes x1 n1 x2 n2 d a b :: real
  assumes wf: "0 \<le> x1" "x1 \<le> n1" "0 \<le> x2" "x2 \<le> n2"
    and ab: "a \<le> b" "0 < a" "b < 1" "0 < a + d" "b + d < 1"
  shows "x1 / b - (n1 - x1) / (1 - b) + x2 / (b + d) - (n2 - x2) / (1 - (b + d))
           \<le> x1 / a - (n1 - x1) / (1 - a) + x2 / (a + d) - (n2 - x2) / (1 - (a + d))"
proof -
  have 1: "x1 / b \<le> x1 / a"
    using wf ab by (intro divide_left_mono) (auto simp: mult_pos_pos)
  have 2: "(n1 - x1) / (1 - a) \<le> (n1 - x1) / (1 - b)"
    using wf ab by (intro divide_left_mono) (auto simp: mult_pos_pos)
  have 3: "x2 / (b + d) \<le> x2 / (a + d)"
    using wf ab by (intro divide_left_mono) (auto simp: mult_pos_pos)
  have 4: "(n2 - x2) / (1 - (a + d)) \<le> (n2 - x2) / (1 - (b + d))"
    using wf ab by (intro divide_left_mono) (auto simp: mult_pos_pos)
  from 1 2 3 4 show ?thesis by linarith
qed

text \<open>
  A difference \<open>d\<close> is feasible when some \<open>p\<close> has both \<open>p\<close> and \<open>p + d\<close> strictly
  between \<open>1e-8\<close> and \<open>1 - 1e-8\<close>; the interval the solver searches is then proper.
\<close>

lemma feasible_interval:
  fixes d p :: real
  assumes "1 / 10 ^ 8 < p" "p < 1 - 1 / 10 ^ 8" "1 / 10 ^ 8 < p + d" "p + d < 1 - 1 / 10 ^ 8"
  shows "max (1 / 10 ^ 8) (- d + 1 / 10 ^ 8) < min (1 - 1 / 10 ^ 8) (1 - d - 1 / 10 ^ 8)"
proof -
  have "max (1 / 10 ^ 8) (- d + 1 / 10 ^ 8) < p" using assms by (simp add: max_def)
  moreover have "p < min (1 - 1 / 10 ^ 8) (1 - d - 1 / 10 ^ 8)" using assms by (simp add: min_def)
  ultimately show ?thesis by (rule less_trans)
qed

section \<open>Shapes of the solvers' results\<close>


text \<open>
  The out-of-range fallback of the Newton loop clips \<open>p1\<close> to
  \<open>[0.001, 0.999 - delta0]\<close>; for a negative \<open>delta0\<close> the value it returns can exceed 1.
\<close>

lemma fm_fallback_above_one:
  "calculateFMRMLE (Fin 1) (Fin 1) (Fin 10) (Fin 10) (Fin (- 0.9995)) =
     \<lparr>p1_rmle = Fin 1.49975, p2_rmle = Fin 0.50025\<rparr>"
  by (simp add: calculateFMRMLE_def Let_def eval_nat_numeral)

text \<open>
  When the loop is left through the convergence test, the iterate is not clipped again,
  and the clip of \<open>p2\<close> on return moves \<open>p2\<close> alone: with observed rates \<open>0.8995\<close> and
  \<open>0.9995\<close> in groups of 10000 and \<open>delta0 = 0.1\<close> the first Newton step is 0.
\<close>

lemma fm_final_clip_moves_p2_alone:
  "calculateFMRMLE (Fin (8995 / 10000)) (Fin (9995 / 10000)) (Fin 10000) (Fin 10000) (Fin 0.1) =
     \<lparr>p1_rmle = Fin 0.8995, p2_rmle = Fin 0.999\<rparr>"
  by (simp add: calculateFMRMLE_def Let_def eval_nat_numeral)

lemma mn_mle_constraint:
  fixes d :: real
  assumes ab: "max (1 / 10 ^ 8) (- d + 1 / 10 ^ 8) < min (1 - 1 / 10 ^ 8) (1 - d - 1 / 10 ^ 8)"
    and d: "\<not> \<bar>d\<bar> < 1 / 10 ^ 10"
  shows "\<exists>m. calculateMNConstrainedMLE x1 n1 x2 n2 (Fin d) = \<lparr>p1_mle = Fin m, p2_mle = Fin (m + d)\<rparr>"
proof -
  define a where "a = max (1 / 10 ^ 8) (- d + 1 / 10 ^ 8)"
  define b where "b = min (1 - 1 / 10 ^ 8) (1 - d - 1 / 10 ^ 8)"
  have pmin: "Math_max (Fin (1 / 10 ^ 8)) (- Fin d + Fin (1 / 10 ^ 8)) = Fin a"
    by (simp add: a_def)
  have pmax: "Math_min (Fin 1 - Fin (1 / 10 ^ 8)) (Fin 1 - Fin d - Fin (1 / 10 ^ 8)) = Fin b"
    by (simp add: b_def)
  have dd: "\<not> \<bar>Fin d\<bar> < Fin (1 / 10 ^ 10)" using d by simp
  have "a < b" using ab unfolding a_def b_def .
  then have nge: "\<not> Fin a \<ge> Fin b" by simp
  let ?sl = "scoreFunc x1 n1 x2 n2 (Fin d) (Fin a)"
  let ?sh = "scoreFunc x1 n1 x2 n2 (Fin d) (Fin b)"
  have mle: "calculateMNConstrainedMLE x1 n1 x2 n2 (Fin d) =
      (if ?sl \<le> Fin 0 then \<lparr>p1_mle = Fin a, p2_mle = Fin (a + d)\<rparr>
       else if ?sh \<ge> Fin 0 then \<lparr>p1_mle = Fin b, p2_mle = Fin (b + d)\<rparr>
       else mnBisect 100 x1 n1 x2 n2 (Fin d) (Fin a) (Fin b))"
    unfolding calculateMNConstrainedMLE_def Let_def pmin pmax
    using dd nge by simp
  show ?thesis
  proof (cases "?sl \<le> Fin 0")
    case True
    then show ?thesis using mle by (intro exI [of _ a]) simp
  next
    case False
    show ?thesis
    proof (cases "?sh \<ge> Fin 0")
      case True
      then show ?thesis using mle False by (intro exI [of _ b]) simp
    next
      case hi: False
      then show ?thesis using mle False mnBisect_form [of 100 x1 n1 x2 n2 d a b] by simp
    qed
  qed
qed

text \<open>
  The bisection solver keeps the constraint: on every feasible input the pair it returns
  has \<open>|p2Star - p1Star - delta0| < 1e-6\<close>.
\<close>

lemma mn_mle_difference_constraint:
  fixes x1 n1 x2 n2 d :: real
  assumes wf: "0 \<le> x1" "x1 \<le> n1" "0 \<le> x2" "x2 \<le> n2" "0 < n1" "0 < n2"
    and feas: "\<exists>p. 1 / 10 ^ 8 < p \<and> p < 1 - 1 / 10 ^ 8 \<and> 1 / 10 ^ 8 < p + d \<and> p + d < 1 - 1 / 10 ^ 8"
  shows "\<exists>a b. calculateMNConstrainedMLE (Fin x1) (Fin n1) (Fin x2) (Fin n2) (Fin d) =
                  \<lparr>p1_mle = Fin a, p2_mle = Fin b\<rparr> \<and> \<bar>b - a - d\<bar> < 1 / 10 ^ 6"
proof (cases "\<bar>d\<bar> < 1 / 10 ^ 10")
  case True
  have nz: "n1 + n2 \<noteq> 0" using wf by simp
  have "calculateMNConstrainedMLE (Fin x1) (Fin n1) (Fin x2) (Fin n2) (Fin d) =
          \<lparr>p1_mle = Fin ((x1 + x2) / (n1 + n2)), p2_mle = Fin ((x1 + x2) / (n1 + n2))\<rparr>"
    using True nz by (simp add: calculateMNConstrainedMLE_def Let_def)
  moreover have "\<bar>(x1 + x2) / (n1 + n2) - (x1 + x2) / (n1 + n2) - d\<bar> < 1 / 10 ^ 6"
    using True by simp
  ultimately show ?thesis by blast
next
  case False
  have ab: "max (1 / 10 ^ 8) (- d + 1 / 10 ^ 8) < min (1 - 1 / 10 ^ 8) (1 - d - 1 / 10 ^ 8)"
    using feas feasible_interval by blast
  obtain m where "calculateMNConstrainedMLE (Fin x1) (Fin n1) (Fin x2) (Fin n2) (Fin d) =
      \<lparr>p1_mle = Fin m, p2_mle = Fin (m + d)\<rparr>"
    using mn_mle_constraint [OF ab False] by blast
  moreover have "\<bar>(m + d) - m - d\<bar> < 1 / 10 ^ 6" by simp
  ultimately show ?thesis by blast
qed

text \<open>Two inputs on which the variance under the square root is not positive.\<close>

lemma mn_zero_events_variance:
  "var_mn (Fin 10) (Fin 10) (calculateMNConstrainedMLE (Fin 0) (Fin 10) (Fin 0) (Fin 10) (Fin 0)) = Fin 0"
  by (simp add: calculateMNConstrainedMLE_def var_mn_def Let_def)

lemma fm_fallback_variance:
  "var_h0 (Fin 10) (Fin 10) (calculateFMRMLE (Fin 1) (Fin 1) (Fin 10) (Fin 10) (Fin (- 0.9995))) =
     Fin (- 0.0499500125)"
  by (simp add: calculateFMRMLE_def var_h0_def Let_def eval_nat_numeral)

section \<open>The confidence-interval search\<close>

text \<open>The statistic of the search has the sign of \<open>diff - delta0\<close>, or is not a number.\<close>

lemma div_sqrt_floor_sign:
  fixes a e :: real
  assumes "0 < e"
  shows "Fin a / Math_sqrt (Math_max v (Fin e)) = NaN \<or>
         (\<exists>r. Fin a / Math_sqrt (Math_max v (Fin e)) = Fin r \<and> (a \<le> 0 \<longrightarrow> r \<le> 0) \<and> (0 \<le> a \<longrightarrow> 0 \<le> r))"
proof (cases v)
  case (Fin x)
  have "0 < max x e" using assms by (simp add: max_def)
  then have s: "0 < sqrt (max x e)" by simp
  have 1: "Math_max v (Fin e) = Fin (max x e)" using Fin by simp
  have 2: "Math_sqrt (Fin (max x e)) = Fin (sqrt (max x e))"
    using \<open>0 < max x e\<close> assms by simp
  have 3: "Fin a / Fin (sqrt (max x e)) = Fin (a / sqrt (max x e))"
    using s by (intro Fin_div) simp
  have "Fin a / Math_sqrt (Math_max v (Fin e)) = Fin (a / sqrt (max x e))"
    by (simp only: 1 2 3)
  moreover have "a \<le> 0 \<longrightarrow> a / sqrt (max x e) \<le> 0" using s by (simp add: divide_nonpos_pos)
  moreover have "0 \<le> a \<longrightarrow> 0 \<le> a / sqrt (max x e)" using s by simp
  ultimately show ?thesis by blast
next
  case PInf
  then show ?thesis by simp
next
  case NInf
  have s: "0 < sqrt e" using assms by simp
  have 1: "Math_max v (Fin e) = Fin e" using NInf by simp
  have 2: "Math_sqrt (Fin e) = Fin (sqrt e)" using assms by simp
  have 3: "Fin a / Fin (sqrt e) = Fin (a / sqrt e)"
    using s by (intro Fin_div) simp
  have "Fin a / Math_sqrt (Math_max v (Fin e)) = Fin (a / sqrt e)"
    by (simp only: 1 2 3)
  moreover have "a \<le> 0 \<longrightarrow> a / sqrt e \<le> 0" using s by (simp add: divide_nonpos_pos)
  moreover have "0 \<le> a \<longrightarrow> 0 \<le> a / sqrt e" using s by simp
  ultimately show ?thesis by blast
next
  case NaN
  then show ?thesis by simp
qed

lemma calcZ_sign:
  "calcZ x1 n1 x2 n2 (Fin d) (Fin m) = NaN \<or>
   (\<exists>r. calcZ x1 n1 x2 n2 (Fin d) (Fin m) = Fin r \<and> (d \<le> m \<longrightarrow> r \<le> 0) \<and> (m \<le> d \<longrightarrow> 0 \<le> r))"
proof -
  have e: "(0::real) < 1 / 10 ^ 12" by simp
  show ?thesis
    using div_sqrt_floor_sign [OF e, of "d - m"
        "var_mn n1 n2 (calculateMNConstrainedMLE x1 n1 x2 n2 (Fin m))"]
    by (simp add: calcZ_def Let_def)
qed

lemma mnLowerLoop_step:
  "mnLowerLoop (Suc k) x1 n1 x2 n2 dif z_alpha (Fin lo) (Fin hi) =
     (if calcZ x1 n1 x2 n2 dif (Fin ((lo + hi) / 2)) > z_alpha then
        (if \<bar>hi - (lo + hi) / 2\<bar> < 1 / 10 ^ 8 then (Fin ((lo + hi) / 2), Fin hi)
         else mnLowerLoop k x1 n1 x2 n2 dif z_alpha (Fin ((lo + hi) / 2)) (Fin hi))
      else
        (if \<bar>(lo + hi) / 2 - lo\<bar> < 1 / 10 ^ 8 then (Fin lo, Fin ((lo + hi) / 2))
         else mnLowerLoop k x1 n1 x2 n2 dif z_alpha (Fin lo) (Fin ((lo + hi) / 2))))"
  by (simp add: Let_def)

lemma mnUpperLoop_step:
  "mnUpperLoop (Suc k) x1 n1 x2 n2 dif z_alpha (Fin lo) (Fin hi) =
     (if calcZ x1 n1 x2 n2 dif (Fin ((lo + hi) / 2)) < - z_alpha then
        (if \<bar>(lo + hi) / 2 - lo\<bar> < 1 / 10 ^ 8 then (Fin lo, Fin ((lo + hi) / 2))
         else mnUpperLoop k x1 n1 x2 n2 dif z_alpha (Fin lo) (Fin ((lo + hi) / 2)))
      else
        (if \<bar>hi - (lo + hi) / 2\<bar> < 1 / 10 ^ 8 then (Fin ((lo + hi) / 2), Fin hi)
         else mnUpperLoop k x1 n1 x2 n2 dif z_alpha (Fin ((lo + hi) / 2)) (Fin hi)))"
  by (simp add: Let_def)

lemma mnLowerLoop_inv:
  assumes "lo \<le> hi"
  shows "\<exists>l h. mnLowerLoop k x1 n1 x2 n2 dif z_alpha (Fin lo) (Fin hi) = (Fin l, Fin h) \<and>
           lo \<le> l \<and> l \<le> h \<and> h \<le> hi \<and>
           (l = lo \<or> calcZ x1 n1 x2 n2 dif (Fin l) > z_alpha) \<and>
           (h = hi \<or> \<not> calcZ x1 n1 x2 n2 dif (Fin h) > z_alpha) \<and>
           (hi - lo < 2 ^ k / 10 ^ 8 \<longrightarrow> h - l < 1 / 10 ^ 8)"
  using assms
proof (induction k arbitrary: lo hi)
  case 0
  then show ?case by simp
next
  case (Suc k)
  let ?m = "(lo + hi) / 2"
  have m: "lo \<le> ?m" "?m \<le> hi" using Suc.prems by simp_all
  have w: "hi - lo < 2 ^ Suc k / 10 ^ 8 \<Longrightarrow> hi - ?m < 2 ^ k / 10 ^ 8 \<and> ?m - lo < 2 ^ k / 10 ^ 8"
    by (simp add: field_simps)
  show ?case
  proof (cases "calcZ x1 n1 x2 n2 dif (Fin ?m) > z_alpha")
    case True
    show ?thesis
    proof (cases "\<bar>hi - ?m\<bar> < 1 / 10 ^ 8")
      case brk: True
      have "mnLowerLoop (Suc k) x1 n1 x2 n2 dif z_alpha (Fin lo) (Fin hi) = (Fin ?m, Fin hi)"
        using True brk by (simp only: mnLowerLoop_step if_True)
      moreover have "hi - ?m < 1 / 10 ^ 8" using brk by linarith
      ultimately have "mnLowerLoop (Suc k) x1 n1 x2 n2 dif z_alpha (Fin lo) (Fin hi) = (Fin ?m, Fin hi) \<and>
           lo \<le> ?m \<and> ?m \<le> hi \<and> hi \<le> hi \<and>
           (?m = lo \<or> calcZ x1 n1 x2 n2 dif (Fin ?m) > z_alpha) \<and>
           (hi = hi \<or> \<not> calcZ x1 n1 x2 n2 dif (Fin hi) > z_alpha) \<and>
           (hi - lo < 2 ^ Suc k / 10 ^ 8 \<longrightarrow> hi - ?m < 1 / 10 ^ 8)"
        using True m by blast
      then show ?thesis by blast
    next
      case False
      have eq: "mnLowerLoop (Suc k) x1 n1 x2 n2 dif z_alpha (Fin lo) (Fin hi) =
                mnLowerLoop k x1 n1 x2 n2 dif z_alpha (Fin ?m) (Fin hi)"
        using True False by (simp only: mnLowerLoop_step if_True if_False)
      obtain l h where lh: "mnLowerLoop k x1 n1 x2 n2 dif z_alpha (Fin ?m) (Fin hi) = (Fin l, Fin h)"
          "?m \<le> l" "l \<le> h" "h \<le> hi"
          "l = ?m \<or> calcZ x1 n1 x2 n2 dif (Fin l) > z_alpha"
          "h = hi \<or> \<not> calcZ x1 n1 x2 n2 dif (Fin h) > z_alpha"
          "hi - ?m < 2 ^ k / 10 ^ 8 \<longrightarrow> h - l < 1 / 10 ^ 8"
        using Suc.IH [OF m(2)] by blast
      have "calcZ x1 n1 x2 n2 dif (Fin l) > z_alpha" using lh(5) True by blast
      moreover have "lo \<le> l" using lh(2) m by linarith
      moreover have "hi - lo < 2 ^ Suc k / 10 ^ 8 \<longrightarrow> h - l < 1 / 10 ^ 8" using lh(7) w by blast
      moreover have "mnLowerLoop (Suc k) x1 n1 x2 n2 dif z_alpha (Fin lo) (Fin hi) = (Fin l, Fin h)"
        by (simp only: eq lh(1))
      ultimately have "mnLowerLoop (Suc k) x1 n1 x2 n2 dif z_alpha (Fin lo) (Fin hi) = (Fin l, Fin h) \<and>
           lo \<le> l \<and> l \<le> h \<and> h \<le> hi \<and>
           (l = lo \<or> calcZ x1 n1 x2 n2 dif (Fin l) > z_alpha) \<and>
           (h = hi \<or> \<not> calcZ x1 n1 x2 n2 dif (Fin h) > z_alpha) \<and>
           (hi - lo < 2 ^ Suc k / 10 ^ 8 \<longrightarrow> h - l < 1 / 10 ^ 8)"
        using lh(3,4,6) by blast
      then show ?thesis by blast
    qed
  next
    case nz: False
    show ?thesis
    proof (cases "\<bar>?m - lo\<bar> < 1 / 10 ^ 8")
      case brk: True
      have "mnLowerLoop (Suc k) x1 n1 x2 n2 dif z_alpha (Fin lo) (Fin hi) = (Fin lo, Fin ?m)"
        using nz brk by (simp only: mnLowerLoop_step if_True if_False)
      moreover have "?m - lo < 1 / 10 ^ 8" using brk by linarith
      ultimately have "mnLowerLoop (Suc k) x1 n1 x2 n2 dif z_alpha (Fin lo) (Fin hi) = (Fin lo, Fin ?m) \<and>
           lo \<le> lo \<and> lo \<le> ?m \<and> ?m \<le> hi \<and>
           (lo = lo \<or> calcZ x1 n1 x2 n2 dif (Fin lo) > z_alpha) \<and>
           (?m = hi \<or> \<not> calcZ x1 n1 x2 n2 dif (Fin ?m) > z_alpha) \<and>
           (hi - lo < 2 ^ Suc k / 10 ^ 8 \<longrightarrow> ?m - lo < 1 / 10 ^ 8)"
        using nz m by blast
      then show ?thesis by blast
    next
      case False
      have eq: "mnLowerLoop (Suc k) x1 n1 x2 n2 dif z_alpha (Fin lo) (Fin hi) =
                mnLowerLoop k x1 n1 x2 n2 dif z_alpha (Fin lo) (Fin ?m)"
        using nz False by (simp only: mnLowerLoop_step if_False)
      obtain l h where lh: "mnLowerLoop k x1 n1 x2 n2 dif z_alpha (Fin lo) (Fin ?m) = (Fin l, Fin h)"
          "lo \<le> l" "l \<le> h" "h \<le> ?m"
          "l = lo \<or> calcZ x1 n1 x2 n2 dif (Fin l) > z_alpha"
          "h = ?m \<or> \<not> calcZ x1 n1 x2 n2 dif (Fin h) > z_alpha"
          "?m - lo < 2 ^ k / 10 ^ 8 \<longrightarrow> h - l < 1 / 10 ^ 8"
        using Suc.IH [OF m(1)] by blast
      have "\<not> calcZ x1 n1 x2 n2 dif (Fin h) > z_alpha" using lh(6) nz by blast
      moreover have "h \<le> hi" using lh(4) m by linarith
      moreover have "hi - lo < 2 ^ Suc k / 10 ^ 8 \<longrightarrow> h - l < 1 / 10 ^ 8" using lh(7) w by blast
      moreover have "mnLowerLoop (Suc k) x1 n1 x2 n2 dif z_alpha (Fin lo) (Fin hi) = (Fin l, Fin h)"
        by (simp only: eq lh(1))
      ultimately have "mnLowerLoop (Suc k) x1 n1 x2 n2 dif z_alpha (Fin lo) (Fin hi) = (Fin l, Fin h) \<and>
           lo \<le> l \<and> l \<le> h \<and> h \<le> hi \<and>
           (l = lo \<or> calcZ x1 n1 x2 n2 dif (Fin l) > z_alpha) \<and>
           (h = hi \<or> \<not> calcZ x1 n1 x2 n2 dif (Fin h) > z_alpha) \<and>
           (hi - lo < 2 ^ Suc k / 10 ^ 8 \<longrightarrow> h - l < 1 / 10 ^ 8)"
        using lh(2,3,5) by blast
      then show ?thesis by blast
    qed
  qed
qed


lemma mnUpperLoop_inv:
  assumes "lo \<le> hi"
  shows "\<exists>l h. mnUpperLoop k x1 n1 x2 n2 dif z_alpha (Fin lo) (Fin hi) = (Fin l, Fin h) \<and>
           lo \<le> l \<and> l \<le> h \<and> h \<le> hi \<and>
           (h = hi \<or> calcZ x1 n1 x2 n2 dif (Fin h) < - z_alpha) \<and>
           (l = lo \<or> \<not> calcZ x1 n1 x2 n2 dif (Fin l) < - z_alpha) \<and>
           (hi - lo < 2 ^ k / 10 ^ 8 \<longrightarrow> h - l < 1 / 10 ^ 8)"
  using assms
proof (induction k arbitrary: lo hi)
  case 0
  then show ?case by simp
next
  case (Suc k)
  let ?m = "(lo + hi) / 2"
  have m: "lo \<le> ?m" "?m \<le> hi" using Suc.prems by simp_all
  have w: "hi - lo < 2 ^ Suc k / 10 ^ 8 \<Longrightarrow> hi - ?m < 2 ^ k / 10 ^ 8 \<and> ?m - lo < 2 ^ k / 10 ^ 8"
    by (simp add: field_simps)
  show ?case
  proof (cases "calcZ x1 n1 x2 n2 dif (Fin ?m) < - z_alpha")
    case True
    show ?thesis
    proof (cases "\<bar>?m - lo\<bar> < 1 / 10 ^ 8")
      case brk: True
      have "mnUpperLoop (Suc k) x1 n1 x2 n2 dif z_alpha (Fin lo) (Fin hi) = (Fin lo, Fin ?m)"
        using True brk by (simp only: mnUpperLoop_step if_True)
      moreover have "?m - lo < 1 / 10 ^ 8" using brk by linarith
      ultimately have "mnUpperLoop (Suc k) x1 n1 x2 n2 dif z_alpha (Fin lo) (Fin hi) = (Fin lo, Fin ?m) \<and>
           lo \<le> lo \<and> lo \<le> ?m \<and> ?m \<le> hi \<and>
           (?m = hi \<or> calcZ x1 n1 x2 n2 dif (Fin ?m) < - z_alpha) \<and>
           (lo = lo \<or> \<not> calcZ x1 n1 x2 n2 dif (Fin lo) < - z_alpha) \<and>
           (hi - lo < 2 ^ Suc k / 10 ^ 8 \<longrightarrow> ?m - lo < 1 / 10 ^ 8)"
        using True m by blast
      then show ?thesis by blast
    next
      case False
      have eq: "mnUpperLoop (Suc k) x1 n1 x2 n2 dif z_alpha (Fin lo) (Fin hi) =
                mnUpperLoop k x1 n1 x2 n2 dif z_alpha (Fin lo) (Fin ?m)"
        using True False by (simp only: mnUpperLoop_step if_True if_False)
      obtain l h where lh: "mnUpperLoop k x1 n1 x2 n2 dif z_alpha (Fin lo) (Fin ?m) = (Fin l, Fin h)"
          "lo \<le> l" "l \<le> h" "h \<le> ?m"
          "h = ?m \<or> calcZ x1 n1 x2 n2 dif (Fin h) < - z_alpha"
          "l = lo \<or> \<not> calcZ x1 n1 x2 n2 dif (Fin l) < - z_alpha"
          "?m - lo < 2 ^ k / 10 ^ 8 \<longrightarrow> h - l < 1 / 10 ^ 8"
        using Suc.IH [OF m(1)] by blast
      have "calcZ x1 n1 x2 n2 dif (Fin h) < - z_alpha" using lh(5) True by blast
      moreover have "h \<le> hi" using lh(4) m by linarith
      moreover have "hi - lo < 2 ^ Suc k / 10 ^ 8 \<longrightarrow> h - l < 1 / 10 ^ 8" using lh(7) w by blast
      moreover have "mnUpperLoop (Suc k) x1 n1 x2 n2 dif z_alpha (Fin lo) (Fin hi) = (Fin l, Fin h)"
        by (simp only: eq lh(1))
      ultimately have "mnUpperLoop (Suc k) x1 n1 x2 n2 dif z_alpha (Fin lo) (Fin hi) = (Fin l, Fin h) \<and>
           lo \<le> l \<and> l \<le> h \<and> h \<le> hi \<and>
           (h = hi \<or> calcZ x1 n1 x2 n2 dif (Fin h) < - z_alpha) \<and>
           (l = lo \<or> \<not> calcZ x1 n1 x2 n2 dif (Fin l) < - z_alpha) \<and>
           (hi - lo < 2 ^ Suc k / 10 ^ 8 \<longrightarrow> h - l < 1 / 10 ^ 8)"
        using lh(2,3,6) by blast
      then show ?thesis by blast
    qed
  next
    case nz: False
    show ?thesis
    proof (cases "\<bar>hi - ?m\<bar> < 1 / 10 ^ 8")
      case brk: True
      have "mnUpperLoop (Suc k) x1 n1 x2 n2 dif z_alpha (Fin lo) (Fin hi) = (Fin ?m, Fin hi)"
        using nz brk by (simp only: mnUpperLoop_step if_True if_False)
      moreover have "hi - ?m < 1 / 10 ^ 8" using brk by linarith
      ultimately have "mnUpperLoop (Suc k) x1 n1 x2 n2 dif z_alpha (Fin lo) (Fin hi) = (Fin ?m, Fin hi) \<and>
           lo \<le> ?m \<and> ?m \<le> hi \<and> hi \<le> hi \<and>
           (hi = hi \<or> calcZ x1 n1 x2 n2 dif (Fin hi) < - z_alpha) \<and>
           (?m = lo \<or> \<not> calcZ x1 n1 x2 n2 dif (Fin ?m) < - z_alpha) \<and>
           (hi - lo < 2 ^ Suc k / 10 ^ 8 \<longrightarrow> hi - ?m < 1 / 10 ^ 8)"
        using nz m by blast
      then show ?thesis by blast
    next
      case False
      have eq: "mnUpperLoop (Suc k) x1 n1 x2 n2 dif z_alpha (Fin lo) (Fin hi) =
                mnUpperLoop k x1 n1 x2 n2 dif z_alpha (Fin ?m) (Fin hi)"
        using nz False by (simp only: mnUpperLoop_step if_False)
      obtain l h where lh: "mnUpperLoop k x1 n1 x2 n2 dif z_alpha (Fin ?m) (Fin hi) = (Fin l, Fin h)"
          "?m \<le> l" "l \<le> h" "h \<le> hi"
          "h = hi \<or> calcZ x1 n1 x2 n2 dif (Fin h) < - z_alpha"
          "l = ?m \<or> \<not> calcZ x1 n1 x2 n2 dif (Fin l) < - z_alpha"
          "hi - ?m < 2 ^ k / 10 ^ 8 \<longrightarrow> h - l < 1 / 10 ^ 8"
        using Suc.IH [OF m(2)] by blast
      have "\<not> calcZ x1 n1 x2 n2 dif (Fin l) < - z_alpha" using lh(6) nz by blast
      moreover have "lo \<le> l" using lh(2) m by linarith
      moreover have "hi - lo < 2 ^ Suc k / 10 ^ 8 \<longrightarrow> h - l < 1 / 10 ^ 8" using lh(7) w by blast
      moreover have "mnUpperLoop (Suc k) x1 n1 x2 n2 dif z_alpha (Fin lo) (Fin hi) = (Fin l, Fin h)"
        by (simp only: eq lh(1))
      ultimately have "mnUpperLoop (Suc k) x1 n1 x2 n2 dif z_alpha (Fin lo) (Fin hi) = (Fin l, Fin h) \<and>
           lo \<le> l \<and> l \<le> h \<and> h \<le> hi \<and>
           (h = hi \<or> calcZ x1 n1 x2 n2 dif (Fin h) < - z_alpha) \<and>
           (l = lo \<or> \<not> calcZ x1 n1 x2 n2 dif (Fin l) < - z_alpha) \<and>
           (hi - lo < 2 ^ Suc k / 10 ^ 8 \<longrightarrow> h - l < 1 / 10 ^ 8)"
        using lh(3,4,5) by blast
      then show ?thesis by blast
    qed
  qed
qed

text \<open>
  When the observed difference lies outside the clipped bracket, every trial point is
  on the far side of it and the search never moves the end it returns.
\<close>

lemma mnLowerLoop_keeps_lo:
  assumes "d \<le> lo" "d \<le> hi" "0 \<le> za"
  shows "fst (mnLowerLoop k x1 n1 x2 n2 (Fin d) (Fin za) (Fin lo) (Fin hi)) = Fin lo"
  using assms(2)
proof (induction k arbitrary: hi)
  case 0
  show ?case by simp
next
  case (Suc k)
  let ?m = "(lo + hi) / 2"
  have m: "d \<le> ?m" using assms(1) Suc.prems by simp
  have nz: "\<not> calcZ x1 n1 x2 n2 (Fin d) (Fin ?m) > Fin za"
    using calcZ_sign [of x1 n1 x2 n2 d ?m] m assms(3) by auto
  show ?case
    using Suc.IH [OF m] nz by (simp only: mnLowerLoop_step if_False split: if_splits) simp
qed















section \<open>The normal distribution function on finite arguments\<close>

lemma normalCDF_nonneg:
  assumes "0 \<le> z"
  shows "normalCDF (Fin z) = Fin (1 - hartTail z)"
proof -
  have 1: "1 + 0.2316419 * z \<noteq> 0" using assms by (simp add: add_nonneg_eq_0_iff)
  have 2: "sqrt (2 * pi) \<noteq> 0" by simp
  have 3: "\<not> 2 * pi < 0" by (simp add: not_less)
  show ?thesis
    using assms 1 2 3 unfolding normalCDF_def hartTail_def Let_def
    by (simp add: not_less del: real_sqrt_eq_zero_cancel_iff)
qed

lemma normalCDF_neg:
  assumes "z < 0"
  shows "normalCDF (Fin z) = Fin (hartTail (- z))"
proof -
  have 1: "1 + 0.2316419 * (- z) \<noteq> 0" using assms by (simp add: add_nonneg_eq_0_iff)
  have 2: "sqrt (2 * pi) \<noteq> 0" by simp
  have 3: "\<not> 2 * pi < 0" by (simp add: not_less)
  show ?thesis
    using assms 1 2 3 unfolding normalCDF_def hartTail_def Let_def
    by (simp add: not_less del: real_sqrt_eq_zero_cancel_iff)
qed

lemma hart_poly_bound:
  fixes t :: real
  assumes t: "0 \<le> t" "t \<le> 0.8"
  shows "t * ((((1.330274429 * t + (- 1.821255978)) * t + 1.781477937) * t +
                        (- 0.356563782)) * t + 0.31938153) \<le> 0.96"
proof -
  have up: "h * t \<le> B * 0.8" if "h \<le> B" "0 \<le> B" for h B :: real
  proof -
    have "h * t \<le> B * t" using that(1) t(1) by (rule mult_right_mono)
    also have "\<dots> \<le> B * 0.8" using t(2) that(2) by (rule mult_left_mono)
    finally show ?thesis .
  qed
  have "1.330274429 * t \<le> 1.330274429 * 0.8" using t by simp
  then have h4: "1.330274429 * t + (- 1.821255978) \<le> 0" by simp
  have "(1.330274429 * t + (- 1.821255978)) * t \<le> 0 * 0.8" using h4 by (rule up) simp
  then have h3: "(1.330274429 * t + (- 1.821255978)) * t + 1.781477937 \<le> 1.781477937"
    by linarith
  have "((1.330274429 * t + (- 1.821255978)) * t + 1.781477937) * t \<le> 1.781477937 * 0.8"
    using h3 by (rule up) simp
  then have h2: "((1.330274429 * t + (- 1.821255978)) * t + 1.781477937) * t + (- 0.356563782) \<le> 1.1"
    by simp
  have "(((1.330274429 * t + (- 1.821255978)) * t + 1.781477937) * t + (- 0.356563782)) * t \<le> 1.1 * 0.8"
    using h2 by (rule up) simp
  then have h1: "(((1.330274429 * t + (- 1.821255978)) * t + 1.781477937) * t + (- 0.356563782)) * t
        + 0.31938153 \<le> 1.2"
    by simp
  have "((((1.330274429 * t + (- 1.821255978)) * t + 1.781477937) * t + (- 0.356563782)) * t
        + 0.31938153) * t \<le> 1.2 * 0.8"
    using h1 by (rule up) simp
  then show ?thesis by (simp add: mult.commute)
qed

lemma hartTail_below_half:
  assumes "1.1 \<le> z"
  shows "hartTail z < 1 / 2"
proof -
  define t where "t = 1 / (1 + 0.2316419 * z)"
  define poly where "poly = t * ((((1.330274429 * t + (- 1.821255978)) * t + 1.781477937) * t +
                        (- 0.356563782)) * t + 0.31938153)"
  have den: "1.25 \<le> 1 + 0.2316419 * z" using assms by simp
  then have t0: "0 \<le> t" unfolding t_def by simp
  have "1 / (1 + 0.2316419 * z) \<le> 1 / 1.25"
    using den by (intro divide_left_mono) simp_all
  then have t1: "t \<le> 0.8" unfolding t_def by simp
  have p: "poly \<le> 0.96" unfolding poly_def using t0 t1 by (rule hart_poly_bound)
  have "2 \<le> sqrt (2 * pi)"
  proof (rule real_le_rsqrt)
    show "2\<^sup>2 \<le> 2 * pi" using pi_ge_two by (simp add: power2_eq_square)
  qed
  then have c: "1 / sqrt (2 * pi) \<le> 1 / 2" by (simp add: field_simps)
  have c0: "0 \<le> 1 / sqrt (2 * pi)" by simp
  have e: "exp (- 0.5 * z * z) \<le> 1" "0 \<le> exp (- 0.5 * z * z)"
    using assms by (simp_all add: mult_nonneg_nonneg)
  have "1 / sqrt (2 * pi) * exp (- 0.5 * z * z) \<le> 1 / 2 * 1"
    by (rule mult_mono [OF c e(1) _ e(2)]) simp
  then have ce: "1 / sqrt (2 * pi) * exp (- 0.5 * z * z) \<le> 1 / 2" by simp
  have ce0: "0 \<le> 1 / sqrt (2 * pi) * exp (- 0.5 * z * z)" using c0 e(2) by (rule mult_nonneg_nonneg)
  have "1 / sqrt (2 * pi) * exp (- 0.5 * z * z) * poly \<le> 1 / sqrt (2 * pi) * exp (- 0.5 * z * z) * 0.96"
    using p ce0 by (rule mult_left_mono)
  also have "\<dots> \<le> 1 / 2 * 0.96" using ce by (rule mult_right_mono) simp
  also have "\<dots> < 1 / 2" by simp
  finally show ?thesis unfolding hartTail_def Let_def t_def poly_def .
qed

text \<open>An equivalence trial without a success in either group.\<close>

lemma quantile_0975_finite: "isFinite (normalInverse (\<lambda>p. None) (Fin 1 - Fin 0.05 / Fin 2))"
  by (simp add: normalInverse_def acklam_def Let_def)

lemma zero_events_eq_p_value:
  "p_value (calculateEqResult (\<lambda>p. None) (Fin 10) (Fin 0) (Fin 10) (Fin 0) (Fin 0.2) (Fin 0.05) False ''mn'') =
     Math_max (Fin 1 - normalCDF (Fin 0)) (normalCDF (Fin 0))"
proof -
  have se0: "se (calculateMNResult (Fin 0) (Fin 10) (Fin 0) (Fin 10) (Fin 0) z) = Fin 0" for z
    by (simp add: calculateMNResult_def calculateMNConstrainedMLE_def var_mn_def Let_def)
  show ?thesis
    using quantile_0975_finite
    by (simp add: calculateEqResult_def eqInterval_def eqTost_def safeNumber_def safeDivide_def
        Let_def se0)
qed

lemma zero_events_chain_z:
  "z_score (calculateMNResult (Fin 0) (Fin 10) (Fin 0) (Fin 10) (Fin (- 0.2)) z) =
     Fin (0.2 / sqrt (42105267368421 / 2500000000000000))"
  "z_score (calculateMNResult (Fin 0) (Fin 10) (Fin 0) (Fin 10) (Fin 0.2) z) =
     Fin (- 0.2 / sqrt (42105267368421 / 2500000000000000))"
  by (simp_all add: calculateMNResult_def calculateMNConstrainedMLE_def var_mn_def scoreFunc_def Let_def)

section \<open>Claims\<close>

text \<open>
  C3. For every input with \<open>|delta0| < 1e-10\<close>, in particular \<open>delta0 = 0\<close>,
  \<open>calculateMNConstrainedMLE\<close> returns the pooled rate \<open>(x1 + x2) / (n1 + n2)\<close> for both
  proportions; the value is the closed form, no loop is entered.
\<close>

theorem mn_pooled_rate_near_zero:
  assumes "\<bar>delta0\<bar> < Fin (1 / 10 ^ 10)"
  shows "calculateMNConstrainedMLE x1 n1 x2 n2 delta0 =
           \<lparr>p1_mle = (x1 + x2) / (n1 + n2), p2_mle = (x1 + x2) / (n1 + n2)\<rparr>"
  using assms by (simp add: calculateMNConstrainedMLE_def Let_def)

theorem mn_pooled_rate_near_zero_witness:
  "\<bar>Fin 0\<bar> < Fin (1 / 10 ^ 10) \<and>
   calculateMNConstrainedMLE (Fin 25) (Fin 50) (Fin 25) (Fin 50) (Fin 0) =
     \<lparr>p1_mle = Fin (1 / 2), p2_mle = Fin (1 / 2)\<rparr>"
proof -
  have h: "\<bar>Fin 0\<bar> < Fin (1 / 10 ^ 10)" by simp
  show ?thesis
    using h mn_pooled_rate_near_zero [OF h, where ?x1.0 = "Fin 25" and ?n1.0 = "Fin 50"
        and ?x2.0 = "Fin 25" and ?n2.0 = "Fin 50"] by simp
qed

text \<open>
  C5. For every feasible input with \<open>|delta0| \<ge> 1e-10\<close> on which the score has no
  change of sign between the two ends \<open>p1_min\<close> and \<open>p1_max\<close> of the search interval,
  \<open>calculateMNConstrainedMLE\<close> returns the end at which the absolute score is not larger
  than at the other end, and \<open>p2\<close> is that end plus \<open>delta0\<close>.
\<close>

theorem mn_saturation_at_nearer_end:
  fixes x1 n1 x2 n2 d :: real
  defines "p1_min \<equiv> max (1 / 10 ^ 8) (- d + 1 / 10 ^ 8)"
    and "p1_max \<equiv> min (1 - 1 / 10 ^ 8) (1 - d - 1 / 10 ^ 8)"
  defines "score \<equiv> (\<lambda>p. scoreFunc (Fin x1) (Fin n1) (Fin x2) (Fin n2) (Fin d) (Fin p))"
  assumes wf: "0 \<le> x1" "x1 \<le> n1" "0 \<le> x2" "x2 \<le> n2" "0 < n1" "0 < n2"
    and d: "1 / 10 ^ 10 \<le> \<bar>d\<bar>"
    and feas: "\<exists>p. 1 / 10 ^ 8 < p \<and> p < 1 - 1 / 10 ^ 8 \<and> 1 / 10 ^ 8 < p + d \<and> p + d < 1 - 1 / 10 ^ 8"
    and nosign: "\<not> (score p1_min * score p1_max < Fin 0)"
  shows "\<exists>e. (e = p1_min \<or> e = p1_max) \<and>
           calculateMNConstrainedMLE (Fin x1) (Fin n1) (Fin x2) (Fin n2) (Fin d) =
             \<lparr>p1_mle = Fin e, p2_mle = Fin (e + d)\<rparr> \<and>
           \<bar>score e\<bar> \<le> \<bar>score p1_min\<bar> \<and> \<bar>score e\<bar> \<le> \<bar>score p1_max\<bar>"
proof -
  define a where "a = p1_min"
  define b where "b = p1_max"
  have ab: "a < b"
    using feas feasible_interval unfolding a_def b_def p1_min_def p1_max_def by blast
  have a0: "0 < a" "0 < a + d" by (simp_all add: a_def p1_min_def max_def)
  have b1: "b < 1" "b + d < 1" by (simp_all add: b_def p1_max_def min_def)
  have rng_a: "0 < a" "a < 1" "0 < a + d" "a + d < 1" using ab a0 b1 by linarith+
  have rng_b: "0 < b" "b < 1" "0 < b + d" "b + d < 1" using ab a0 b1 by linarith+
  define sl where "sl = x1 / a - (n1 - x1) / (1 - a) + x2 / (a + d) - (n2 - x2) / (1 - (a + d))"
  define sh where "sh = x1 / b - (n1 - x1) / (1 - b) + x2 / (b + d) - (n2 - x2) / (1 - (b + d))"
  have sa: "scoreFunc (Fin x1) (Fin n1) (Fin x2) (Fin n2) (Fin d) (Fin a) = Fin sl"
    unfolding sl_def by (rule scoreFunc_Fin [OF rng_a])
  have sb: "scoreFunc (Fin x1) (Fin n1) (Fin x2) (Fin n2) (Fin d) (Fin b) = Fin sh"
    unfolding sh_def by (rule scoreFunc_Fin [OF rng_b])
  have mono: "sh \<le> sl"
    unfolding sl_def sh_def
    using score_antimono [OF wf(1-4), of a b d] ab rng_a rng_b by simp
  have ns: "\<not> sl * sh < 0"
    using nosign unfolding score_def a_def [symmetric] b_def [symmetric] sa sb by simp
  have pmin: "Math_max (Fin (1 / 10 ^ 8)) (- Fin d + Fin (1 / 10 ^ 8)) = Fin a"
    by (simp add: a_def p1_min_def)
  have pmax: "Math_min (Fin 1 - Fin (1 / 10 ^ 8)) (Fin 1 - Fin d - Fin (1 / 10 ^ 8)) = Fin b"
    by (simp add: b_def p1_max_def)
  have dd: "\<not> \<bar>Fin d\<bar> < Fin (1 / 10 ^ 10)" using d by simp
  have nge: "\<not> Fin a \<ge> Fin b" using ab by simp
  have mle: "calculateMNConstrainedMLE (Fin x1) (Fin n1) (Fin x2) (Fin n2) (Fin d) =
      (if sl \<le> 0 then \<lparr>p1_mle = Fin a, p2_mle = Fin (a + d)\<rparr>
       else if 0 \<le> sh then \<lparr>p1_mle = Fin b, p2_mle = Fin (b + d)\<rparr>
       else mnBisect 100 (Fin x1) (Fin n1) (Fin x2) (Fin n2) (Fin d) (Fin a) (Fin b))"
    unfolding calculateMNConstrainedMLE_def Let_def pmin pmax sa sb
    using dd nge by simp
  show ?thesis
  proof (cases "sl \<le> 0")
    case True
    then have "\<bar>sl\<bar> \<le> \<bar>sh\<bar>" using mono by simp
    then show ?thesis
      unfolding score_def a_def [symmetric] b_def [symmetric]
      using True mle sa sb by (intro exI [of _ a]) simp
  next
    case False
    then have sh0: "0 \<le> sh" using ns by (simp add: mult_less_0_iff not_less)
    then have "\<bar>sh\<bar> \<le> \<bar>sl\<bar>" using mono by simp
    then show ?thesis
      unfolding score_def a_def [symmetric] b_def [symmetric]
      using False sh0 mle sa sb by (intro exI [of _ b]) simp
  qed
qed


theorem mn_saturation_at_nearer_end_witness:
  "(0::real) \<le> 0 \<and> (0::real) \<le> 10 \<and> (0::real) < 10 \<and> 1 / 10 ^ 10 \<le> \<bar>- 0.1 :: real\<bar> \<and>
   (\<exists>p::real. 1 / 10 ^ 8 < p \<and> p < 1 - 1 / 10 ^ 8 \<and> 1 / 10 ^ 8 < p + (- 0.1) \<and>
       p + (- 0.1) < 1 - 1 / 10 ^ 8) \<and>
   \<not> (scoreFunc (Fin 0) (Fin 10) (Fin 0) (Fin 10) (Fin (- 0.1))
          (Fin (max (1 / 10 ^ 8) (- (- 0.1) + 1 / 10 ^ 8))) *
        scoreFunc (Fin 0) (Fin 10) (Fin 0) (Fin 10) (Fin (- 0.1))
          (Fin (min (1 - 1 / 10 ^ 8) (1 - (- 0.1) - 1 / 10 ^ 8))) < Fin 0) \<and>
   calculateMNConstrainedMLE (Fin 0) (Fin 10) (Fin 0) (Fin 10) (Fin (- 0.1)) =
     \<lparr>p1_mle = Fin (0.1 + 1 / 10 ^ 8), p2_mle = Fin (1 / 10 ^ 8)\<rparr>"
proof -
  have f: "\<exists>p::real. 1 / 10 ^ 8 < p \<and> p < 1 - 1 / 10 ^ 8 \<and> 1 / 10 ^ 8 < p + (- 0.1) \<and>
       p + (- 0.1) < 1 - 1 / 10 ^ 8"
    by (rule exI [of _ "0.5"]) simp
  have s: "\<not> (scoreFunc (Fin 0) (Fin 10) (Fin 0) (Fin 10) (Fin (- 0.1))
          (Fin (max (1 / 10 ^ 8) (- (- 0.1) + 1 / 10 ^ 8))) *
        scoreFunc (Fin 0) (Fin 10) (Fin 0) (Fin 10) (Fin (- 0.1))
          (Fin (min (1 - 1 / 10 ^ 8) (1 - (- 0.1) - 1 / 10 ^ 8))) < Fin 0)"
    by (simp add: scoreFunc_def Let_def)
  have "\<exists>e. (e = max (1 / 10 ^ 8) (- (- 0.1) + 1 / 10 ^ 8) \<or>
             e = min (1 - 1 / 10 ^ 8) (1 - (- 0.1) - 1 / 10 ^ 8)) \<and>
           calculateMNConstrainedMLE (Fin 0) (Fin 10) (Fin 0) (Fin 10) (Fin (- 0.1)) =
             \<lparr>p1_mle = Fin e, p2_mle = Fin (e + (- 0.1))\<rparr> \<and>
           \<bar>scoreFunc (Fin 0) (Fin 10) (Fin 0) (Fin 10) (Fin (- 0.1)) (Fin e)\<bar> \<le>
             \<bar>scoreFunc (Fin 0) (Fin 10) (Fin 0) (Fin 10) (Fin (- 0.1))
                (Fin (max (1 / 10 ^ 8) (- (- 0.1) + 1 / 10 ^ 8)))\<bar> \<and>
           \<bar>scoreFunc (Fin 0) (Fin 10) (Fin 0) (Fin 10) (Fin (- 0.1)) (Fin e)\<bar> \<le>
             \<bar>scoreFunc (Fin 0) (Fin 10) (Fin 0) (Fin 10) (Fin (- 0.1))
                (Fin (min (1 - 1 / 10 ^ 8) (1 - (- 0.1) - 1 / 10 ^ 8)))\<bar>"
    by (rule mn_saturation_at_nearer_end [of 0 10 0 10 "- 0.1", OF _ _ _ _ _ _ _ f s]) simp_all
  then obtain e where e: "e = max (1 / 10 ^ 8) (- (- 0.1) + 1 / 10 ^ 8) \<or>
             e = min (1 - 1 / 10 ^ 8) (1 - (- 0.1) - (1 / 10 ^ 8 :: real))"
      and m: "calculateMNConstrainedMLE (Fin 0) (Fin 10) (Fin 0) (Fin 10) (Fin (- 0.1)) =
             \<lparr>p1_mle = Fin e, p2_mle = Fin (e + (- 0.1))\<rparr>"
      and le: "\<bar>scoreFunc (Fin 0) (Fin 10) (Fin 0) (Fin 10) (Fin (- 0.1)) (Fin e)\<bar> \<le>
             \<bar>scoreFunc (Fin 0) (Fin 10) (Fin 0) (Fin 10) (Fin (- 0.1))
                (Fin (max (1 / 10 ^ 8) (- (- 0.1) + 1 / 10 ^ 8)))\<bar>"
    by blast
  have "e = 0.1 + 1 / 10 ^ 8"
  proof (rule ccontr)
    assume "e \<noteq> 0.1 + 1 / 10 ^ 8"
    then have e': "e = 1 - 1 / 10 ^ 8" using e by (simp add: max_def min_def)
    show False using le unfolding e' by (simp add: scoreFunc_def Let_def)
  qed
  then show ?thesis using f s m by simp
qed

text \<open>
  C4. The variance of the Miettinen-Nurminen chain is
  \<open>p1 (1 - p1) / n1 + p2 (1 - p2) / n2\<close> at the constrained MLE times \<open>N / (N - 1)\<close> with
  \<open>N = n1 + n2\<close>; the variance of the Farrington-Manning chain is the same sum at its
  RMLE without a factor; at equal estimates the two differ by exactly that factor.  The
  standard errors returned are the square roots of these variances.
\<close>

theorem variance_correction_mn_only:
  "se (calculateMNResult x1 n1 x2 n2 delta0 z_alpha) =
     Math_sqrt (var_mn n1 n2 (calculateMNConstrainedMLE x1 n1 x2 n2 delta0)) \<and>
   var_mn n1 n2 \<lparr>p1_mle = a, p2_mle = b\<rparr> =
     ((n1 + n2) / ((n1 + n2) - Fin 1)) * ((a * (Fin 1 - a)) / n1 + (b * (Fin 1 - b)) / n2) \<and>
   se (calculateFMResult p1o p2o n1 n2 delta0 z_alpha) =
     Math_sqrt (var_h0 n1 n2 (calculateFMRMLE p1o p2o n1 n2 delta0)) \<and>
   var_h0 n1 n2 \<lparr>p1_rmle = a, p2_rmle = b\<rparr> =
     (a * (Fin 1 - a)) / n1 + (b * (Fin 1 - b)) / n2 \<and>
   var_mn n1 n2 \<lparr>p1_mle = a, p2_mle = b\<rparr> =
     ((n1 + n2) / ((n1 + n2) - Fin 1)) * var_h0 n1 n2 \<lparr>p1_rmle = a, p2_rmle = b\<rparr>"
  by (simp add: calculateMNResult_def calculateFMResult_def var_mn_def var_h0_def Let_def)

text \<open>
  C2 (the code departs from it).  \<open>calculateFMRMLE\<close> is documented as the estimate
  under the constraint \<open>p2 - p1 = delta0\<close>, and its out-of-range fallback (line 43) is
  commented as a constrained estimate, but the fallback clips \<open>p1\<close> into
  \<open>[0.001, 0.999 - delta0]\<close>, which makes room for \<open>p2 = p1 + delta0\<close> only when
  \<open>delta0\<close> is positive.  With no success in either group of 50 and the feasible
  \<open>delta0 = -0.05\<close> the loop takes the fallback at once, \<open>p1Star = 0.025\<close>, and
  \<open>p2Star\<close> is clipped to \<open>0.001\<close>: the difference misses \<open>delta0\<close> by \<open>0.026\<close>.
  With groups of 10 and \<open>delta0 = -0.9\<close> the result is \<open>(0.45, 0.001)\<close>, off by
  \<open>0.451\<close>.  In the mirrored trial (every subject a success, \<open>delta0 = +0.05\<close>) the same
  fallback returns \<open>(0.949, 0.999)\<close>, which keeps the constraint.
\<close>

theorem fm_rmle_breaks_constraint:
  "calculateFMRMLE (Fin (0 / 50)) (Fin (0 / 50)) (Fin 50) (Fin 50) (Fin (- 0.05)) =
     \<lparr>p1_rmle = Fin 0.025, p2_rmle = Fin 0.001\<rparr> \<and>
   \<not> \<bar>p2_rmle (calculateFMRMLE (Fin (0 / 50)) (Fin (0 / 50)) (Fin 50) (Fin 50) (Fin (- 0.05))) -
      p1_rmle (calculateFMRMLE (Fin (0 / 50)) (Fin (0 / 50)) (Fin 50) (Fin 50) (Fin (- 0.05))) -
      Fin (- 0.05)\<bar> < Fin (1 / 10 ^ 6) \<and>
   calculateFMRMLE (Fin (0 / 10)) (Fin (0 / 10)) (Fin 10) (Fin 10) (Fin (- 0.9)) =
     \<lparr>p1_rmle = Fin 0.45, p2_rmle = Fin 0.001\<rparr> \<and>
   \<not> \<bar>p2_rmle (calculateFMRMLE (Fin (0 / 10)) (Fin (0 / 10)) (Fin 10) (Fin 10) (Fin (- 0.9))) -
      p1_rmle (calculateFMRMLE (Fin (0 / 10)) (Fin (0 / 10)) (Fin 10) (Fin 10) (Fin (- 0.9))) -
      Fin (- 0.9)\<bar> < Fin (1 / 10 ^ 6) \<and>
   calculateFMRMLE (Fin (50 / 50)) (Fin (50 / 50)) (Fin 50) (Fin 50) (Fin 0.05) =
     \<lparr>p1_rmle = Fin 0.949, p2_rmle = Fin 0.999\<rparr>"
  by (simp add: calculateFMRMLE_def Let_def eval_nat_numeral)




text \<open>
  C9 (as the code has it).  With \<open>alpha = 0\<close> the critical quantile is \<open>+Infinity\<close>, and
  the result functions for proportions return, without an exception, the fixed object
  of zeros with \<open>p_value = 1\<close> and no success; no field of it is \<open>NaN\<close>.
\<close>

theorem alpha_zero_returns_zero_object:
  "calculateNIResult cacheGet n1 s1 n2 s2 delta (Fin 0) useContinuity method = zeroResult \<and>
   calculateSupResult cacheGet n1 s1 n2 s2 (Fin 0) useContinuity method = zeroResult \<and>
   calculateEqResult cacheGet n1 s1 n2 s2 delta (Fin 0) useContinuity method = zeroResult"
  by (simp add: calculateNIResult_def calculateSupResult_def calculateEqResult_def
      normalInverse_def safeNumber_def Let_def)

theorem alpha_zero_returns_zero_object_witness:
  "calculateNIResult (\<lambda>p. None) (Fin 50) (Fin 40) (Fin 50) (Fin 45) (Fin 0.1) (Fin 0) False ''fm'' =
     zeroResult \<and>
   calculateSupResult (\<lambda>p. None) (Fin 50) (Fin 40) (Fin 50) (Fin 45) (Fin 0) False ''fm'' =
     zeroResult \<and>
   calculateEqResult (\<lambda>p. None) (Fin 50) (Fin 40) (Fin 50) (Fin 45) (Fin 0.1) (Fin 0) False ''fm'' =
     zeroResult"
  by (rule alpha_zero_returns_zero_object)

text \<open>
  C9 as stated fails: for \<open>n1 = n2 = 100\<close>, \<open>s1 = 80\<close>, \<open>s2 = 85\<close>, margin 0.1, method
  \<open>mn\<close> and \<open>alpha = 0\<close>, \<open>calculateNIResult\<close> returns zeros and a p-value of 1 where
  the claim promises \<open>NaN\<close>.
\<close>

theorem alpha_zero_result_is_not_nan:
  "calculateNIResult (\<lambda>p. None) (Fin 100) (Fin 80) (Fin 100) (Fin 85) (Fin 0.1) (Fin 0) False ''mn'' =
     \<lparr>p1 = Fin 0, p2 = Fin 0, diff = Fin 0, ci_lower = Fin 0, ci_upper = Fin 0,
      p_value = Fin 1, testStatistic = Fin 0, isNonInferior = False, testStatisticType = None\<rparr>"
  by (simp add: calculateNIResult_def normalInverse_def safeNumber_def Let_def zeroResult_def)

text \<open>
  C1 (as the code has it).  Whenever the variance under the square root is not a
  positive finite number (it is \<open>NaN\<close>, infinite, zero or negative) and the numerator
  \<open>diff - delta0\<close> is finite, the \<open>z_score\<close> of \<open>calculateMNResult\<close> and of
  \<open>calculateFMResult\<close> is the number 0: the guard \<open>se > 0 ? ... : 0\<close> coerces it, and a
  division by an infinite standard error gives 0 as well.
\<close>

theorem z_score_zero_on_degenerate_variance:
  "(\<not> (\<exists>v. 0 < v \<and> var_mn n1 n2 (calculateMNConstrainedMLE x1 n1 x2 n2 delta0) = Fin v) \<and>
    isFinite (x2 / n2 - x1 / n1 - delta0) \<longrightarrow>
      z_score (calculateMNResult x1 n1 x2 n2 delta0 z_alpha) = Fin 0) \<and>
   (\<not> (\<exists>v. 0 < v \<and> var_h0 n1 n2 (calculateFMRMLE p1o p2o n1 n2 delta0) = Fin v) \<and>
    isFinite (p2o - p1o - delta0) \<longrightarrow>
      z_score (calculateFMResult p1o p2o n1 n2 delta0 z_alpha) = Fin 0)"
proof (intro conjI impI)
  assume a: "\<not> (\<exists>v. 0 < v \<and> var_mn n1 n2 (calculateMNConstrainedMLE x1 n1 x2 n2 delta0) = Fin v) \<and>
    isFinite (x2 / n2 - x1 / n1 - delta0)"
  then obtain f where f: "x2 / n2 - x1 / n1 - delta0 = Fin f"
    by (cases "x2 / n2 - x1 / n1 - delta0") simp_all
  show "z_score (calculateMNResult x1 n1 x2 n2 delta0 z_alpha) = Fin 0"
    using a f
    by (cases "var_mn n1 n2 (calculateMNConstrainedMLE x1 n1 x2 n2 delta0)")
       (auto simp add: calculateMNResult_def Let_def not_less)
next
  assume a: "\<not> (\<exists>v. 0 < v \<and> var_h0 n1 n2 (calculateFMRMLE p1o p2o n1 n2 delta0) = Fin v) \<and>
    isFinite (p2o - p1o - delta0)"
  then obtain f where f: "p2o - p1o - delta0 = Fin f"
    by (cases "p2o - p1o - delta0") simp_all
  show "z_score (calculateFMResult p1o p2o n1 n2 delta0 z_alpha) = Fin 0"
    using a f
    by (cases "var_h0 n1 n2 (calculateFMRMLE p1o p2o n1 n2 delta0)")
       (auto simp add: calculateFMResult_def Let_def not_less)
qed

theorem z_score_zero_on_degenerate_variance_witness:
  "var_mn (Fin 10) (Fin 10) (calculateMNConstrainedMLE (Fin 0) (Fin 10) (Fin 0) (Fin 10) (Fin 0)) = Fin 0 \<and>
   isFinite (Fin 0 / Fin 10 - Fin 0 / Fin 10 - Fin 0) \<and>
   z_score (calculateMNResult (Fin 0) (Fin 10) (Fin 0) (Fin 10) (Fin 0) (Fin 1.96)) = Fin 0 \<and>
   var_h0 (Fin 10) (Fin 10) (calculateFMRMLE (Fin 1) (Fin 1) (Fin 10) (Fin 10) (Fin (- 0.9995))) =
     Fin (- 0.0499500125) \<and>
   isFinite (Fin 1 - Fin 1 - Fin (- 0.9995)) \<and>
   z_score (calculateFMResult (Fin 1) (Fin 1) (Fin 10) (Fin 10) (Fin (- 0.9995)) (Fin 1.96)) = Fin 0"
proof -
  have h1: "\<not> (\<exists>v. 0 < v \<and>
        var_mn (Fin 10) (Fin 10) (calculateMNConstrainedMLE (Fin 0) (Fin 10) (Fin 0) (Fin 10) (Fin 0)) = Fin v) \<and>
      isFinite (Fin 0 / Fin 10 - Fin 0 / Fin 10 - Fin 0)"
    unfolding mn_zero_events_variance by simp
  have h2: "\<not> (\<exists>v. 0 < v \<and>
        var_h0 (Fin 10) (Fin 10) (calculateFMRMLE (Fin 1) (Fin 1) (Fin 10) (Fin 10) (Fin (- 0.9995))) = Fin v) \<and>
      isFinite (Fin 1 - Fin 1 - Fin (- 0.9995))"
    unfolding fm_fallback_variance by simp
  have c1: "z_score (calculateMNResult (Fin 0) (Fin 10) (Fin 0) (Fin 10) (Fin 0) (Fin 1.96)) = Fin 0"
    using z_score_zero_on_degenerate_variance [THEN conjunct1, THEN mp, OF h1] .
  have c2: "z_score (calculateFMResult (Fin 1) (Fin 1) (Fin 10) (Fin 10) (Fin (- 0.9995)) (Fin 1.96)) = Fin 0"
    using z_score_zero_on_degenerate_variance [THEN conjunct2, THEN mp, OF h2] .
  show ?thesis
    using h1 h2 c1 c2 mn_zero_events_variance fm_fallback_variance by blast
qed

text \<open>
  C1 as stated fails: with no success in either group (\<open>0/10\<close> and \<open>0/10\<close>) and
  \<open>delta0 = 0\<close> the Miettinen-Nurminen variance is 0 and the statistic returned is
  the number 0, not a sentinel.
\<close>

theorem z_score_is_zero_not_sentinel:
  "var_mn (Fin 10) (Fin 10) (calculateMNConstrainedMLE (Fin 0) (Fin 10) (Fin 0) (Fin 10) (Fin 0)) = Fin 0 \<and>
   z_score (calculateMNResult (Fin 0) (Fin 10) (Fin 0) (Fin 10) (Fin 0) (Fin 1.96)) = Fin 0"
  by (simp add: calculateMNResult_def calculateMNConstrainedMLE_def var_mn_def Let_def)




text \<open>
  C10 (as the code has it).  For an observed difference of at least \<open>-0.9999\<close> the
  lower search of \<open>findMNCIBound\<close> returns a value at most the observed difference, and
  for an observed difference of at most \<open>0.9999\<close> the upper search returns a value at
  least the observed difference; so every Miettinen-Nurminen result whose observed
  difference lies in \<open>[-0.9999, 0.9999]\<close> has \<open>ci_lower \<le> diff \<le> ci_upper\<close>.
\<close>

theorem mn_ci_brackets_observed_difference:
  fixes d x1v n1v x2v n2v :: real
  shows "(- 0.9999 \<le> d \<longrightarrow>
            (\<exists>l. findMNCIBound x1 n1 x2 n2 (Fin d) z_alpha ''lower'' = Fin l \<and> l \<le> d)) \<and>
         (d \<le> 0.9999 \<longrightarrow>
            (\<exists>h. findMNCIBound x1 n1 x2 n2 (Fin d) z_alpha ''upper'' = Fin h \<and> d \<le> h)) \<and>
         (n1v \<noteq> 0 \<and> n2v \<noteq> 0 \<and> - 0.9999 \<le> x2v / n2v - x1v / n1v \<and> x2v / n2v - x1v / n1v \<le> 0.9999 \<longrightarrow>
            (\<exists>l h. score_result.ci_lower (calculateMNResult (Fin x1v) (Fin n1v) (Fin x2v) (Fin n2v) delta0 z_alpha) = Fin l \<and>
                   score_result.ci_upper (calculateMNResult (Fin x1v) (Fin n1v) (Fin x2v) (Fin n2v) delta0 z_alpha) = Fin h \<and>
                   l \<le> x2v / n2v - x1v / n1v \<and> x2v / n2v - x1v / n1v \<le> h))"
proof -
  have lower: "\<exists>l. findMNCIBound x1 n1 x2 n2 (Fin d) z_alpha ''lower'' = Fin l \<and> l \<le> d"
    if "- 0.9999 \<le> d" for d x1 n1 x2 n2
  proof -
    have le: "max (- 0.9999) (d - 0.5) \<le> d" using that by simp
    obtain l h where "mnLowerLoop 100 x1 n1 x2 n2 (Fin d) z_alpha (Fin (max (- 0.9999) (d - 0.5))) (Fin d) =
        (Fin l, Fin h)" "l \<le> h" "h \<le> d"
      using mnLowerLoop_inv [OF le, of 100 x1 n1 x2 n2 "Fin d" z_alpha] by blast
    then show ?thesis by (simp add: findMNCIBound_def del: Math_max.simps)
  qed
  have upper: "\<exists>h. findMNCIBound x1 n1 x2 n2 (Fin d) z_alpha ''upper'' = Fin h \<and> d \<le> h"
    if "d \<le> 0.9999" for d x1 n1 x2 n2
  proof -
    have le: "d \<le> min 0.9999 (d + 0.5)" using that by simp
    obtain l h where "mnUpperLoop 100 x1 n1 x2 n2 (Fin d) z_alpha (Fin d) (Fin (min 0.9999 (d + 0.5))) =
        (Fin l, Fin h)" "d \<le> l" "l \<le> h"
      using mnUpperLoop_inv [OF le, of 100 x1 n1 x2 n2 "Fin d" z_alpha] by blast
    then show ?thesis by (simp add: findMNCIBound_def del: Math_min.simps)
  qed
  have res: "\<exists>l h. score_result.ci_lower (calculateMNResult (Fin x1v) (Fin n1v) (Fin x2v) (Fin n2v) delta0 z_alpha) = Fin l \<and>
                   score_result.ci_upper (calculateMNResult (Fin x1v) (Fin n1v) (Fin x2v) (Fin n2v) delta0 z_alpha) = Fin h \<and>
                   l \<le> x2v / n2v - x1v / n1v \<and> x2v / n2v - x1v / n1v \<le> h"
    if hyp: "n1v \<noteq> 0 \<and> n2v \<noteq> 0 \<and> - 0.9999 \<le> x2v / n2v - x1v / n1v \<and> x2v / n2v - x1v / n1v \<le> 0.9999"
  proof -
    have d: "Fin x2v / Fin n2v - Fin x1v / Fin n1v = Fin (x2v / n2v - x1v / n1v)"
      using hyp by simp
    obtain l where l: "findMNCIBound (Fin x1v) (Fin n1v) (Fin x2v) (Fin n2v)
          (Fin (x2v / n2v - x1v / n1v)) z_alpha ''lower'' = Fin l" "l \<le> x2v / n2v - x1v / n1v"
      using lower [of "x2v / n2v - x1v / n1v" "Fin x1v" "Fin n1v" "Fin x2v" "Fin n2v"] hyp by blast
    obtain h where h: "findMNCIBound (Fin x1v) (Fin n1v) (Fin x2v) (Fin n2v)
          (Fin (x2v / n2v - x1v / n1v)) z_alpha ''upper'' = Fin h" "x2v / n2v - x1v / n1v \<le> h"
      using upper [of "x2v / n2v - x1v / n1v" "Fin x1v" "Fin n1v" "Fin x2v" "Fin n2v"] hyp by blast
    have "score_result.ci_lower (calculateMNResult (Fin x1v) (Fin n1v) (Fin x2v) (Fin n2v) delta0 z_alpha) = Fin l"
      "score_result.ci_upper (calculateMNResult (Fin x1v) (Fin n1v) (Fin x2v) (Fin n2v) delta0 z_alpha) = Fin h"
      unfolding calculateMNResult_def Let_def d by (simp_all only: score_result.simps l h)
    then show ?thesis using l(2) h(2) by blast
  qed
  show ?thesis using lower upper res by blast
qed

theorem mn_ci_brackets_observed_difference_witness:
  "- 0.9999 \<le> (0.05::real) \<and> (0.05::real) \<le> 0.9999 \<and>
   (\<exists>l. findMNCIBound (Fin 80) (Fin 100) (Fin 85) (Fin 100) (Fin 0.05) (Fin 1.96) ''lower'' = Fin l \<and>
        l \<le> 0.05) \<and>
   (\<exists>h. findMNCIBound (Fin 80) (Fin 100) (Fin 85) (Fin 100) (Fin 0.05) (Fin 1.96) ''upper'' = Fin h \<and>
        0.05 \<le> h) \<and>
   (100::real) \<noteq> 0 \<and> - 0.9999 \<le> (85 / 100 - 80 / 100 :: real) \<and> (85 / 100 - 80 / 100 :: real) \<le> 0.9999 \<and>
   (\<exists>l h. score_result.ci_lower (calculateMNResult (Fin 80) (Fin 100) (Fin 85) (Fin 100) (Fin (- 0.1)) (Fin 1.96)) = Fin l \<and>
          score_result.ci_upper (calculateMNResult (Fin 80) (Fin 100) (Fin 85) (Fin 100) (Fin (- 0.1)) (Fin 1.96)) = Fin h \<and>
          l \<le> 85 / 100 - 80 / 100 \<and> 85 / 100 - 80 / 100 \<le> h)"
proof -
  have h1: "- 0.9999 \<le> (0.05::real)" and h2: "(0.05::real) \<le> 0.9999" by simp_all
  have h3: "(100::real) \<noteq> 0 \<and> (100::real) \<noteq> 0 \<and> - 0.9999 \<le> (85 / 100 - 80 / 100 :: real) \<and>
      (85 / 100 - 80 / 100 :: real) \<le> 0.9999" by simp
  note t = mn_ci_brackets_observed_difference [of "0.05" "Fin 80" "Fin 100" "Fin 85" "Fin 100" "Fin 1.96"
      100 100 85 80 "Fin (- 0.1)"]
  from t [THEN conjunct1, THEN mp, OF h1] t [THEN conjunct2, THEN conjunct1, THEN mp, OF h2]
    t [THEN conjunct2, THEN conjunct2, THEN mp, OF h3] h1 h2 h3
  show ?thesis by blast
qed

text \<open>
  C10 as stated fails: with \<open>10/10\<close> successes in group 1 and \<open>0/10\<close> in group 2 the
  observed difference is \<open>-1\<close>, the lower search starts from \<open>lo = -0.9999\<close> above
  \<open>hi = -1\<close>, never moves \<open>lo\<close>, and \<open>ci_lower = -0.9999\<close> exceeds the observed
  difference.
\<close>

theorem mn_ci_lower_above_observed_difference:
  "Fin 0 / Fin 10 - Fin 10 / Fin 10 = Fin (- 1) \<and>
   score_result.ci_lower (calculateMNResult (Fin 10) (Fin 10) (Fin 0) (Fin 10) (Fin 0) (Fin 1.96)) =
     Fin (- 0.9999) \<and>
   \<not> (Fin (- 0.9999) \<le> Fin (- 1))"
proof -
  have "fst (mnLowerLoop 100 (Fin 10) (Fin 10) (Fin 0) (Fin 10) (Fin (- 1)) (Fin 1.96)
               (Fin (- 0.9999)) (Fin (- 1))) = Fin (- 0.9999)"
    by (rule mnLowerLoop_keeps_lo) simp_all
  then show ?thesis
    by (simp add: calculateMNResult_def findMNCIBound_def Let_def)
qed

text \<open>
  C7 (as the code has it).  For an equivalence trial with method \<open>mn\<close> or \<open>fm\<close>
  and a finite critical quantile, \<open>calculateEqResult\<close> runs the two one-sided tests
  against \<open>-margin\<close> and \<open>+margin\<close> with one standard error for both,
  \<open>z1 = (diff + margin) / se\<close> and \<open>z2 = (diff - margin) / se\<close> (0 where the
  division is refused by \<open>safeDivide\<close>).  For \<open>mn\<close> the standard error and the
  interval are those of \<open>calculateMNResult\<close> at \<open>delta0 = 0\<close>.  For \<open>fm\<close> the standard
  error is that of the observed rates and the interval runs from \<open>diff - z_alpha * se\<close>
  to \<open>diff + z_alpha * se\<close> when that standard error is finite and not 0; when it is
  not, the object of zeros is returned, with \<open>p_value = 1\<close> and no success.  In
  every other case the function reports
  \<open>p_value = max(1 - normalCDF(z1), normalCDF(z2))\<close> and declares success exactly when
  \<open>ci_lower > -margin\<close> and \<open>ci_upper < margin\<close>.
\<close>

theorem eq_result_tost_with_one_standard_error:
  fixes n1 s1 n2 s2 delta alpha :: real and useContinuity :: bool
    and cacheGet :: "jsnum \<Rightarrow> jsnum option"
  defines "p1v \<equiv> (if useContinuity then safeDivide (Fin s1 + Fin 0.5) (Fin n1 + Fin 1) (Fin 0)
                   else safeDivide (Fin s1) (Fin n1) (Fin 0))"
    and "p2v \<equiv> (if useContinuity then safeDivide (Fin s2 + Fin 0.5) (Fin n2 + Fin 1) (Fin 0)
                   else safeDivide (Fin s2) (Fin n2) (Fin 0))"
  defines "d \<equiv> p2v - p1v"
  defines "z_alpha \<equiv> normalInverse cacheGet (Fin 1 - Fin alpha / Fin 2)"
  defines "mn \<equiv> calculateMNResult (Fin s1) (Fin n1) (Fin s2) (Fin n2) (Fin 0) z_alpha"
  defines "se_obs \<equiv> Math_sqrt (safeDivide (p1v * (Fin 1 - p1v)) (Fin n1) (Fin 0) +
                               safeDivide (p2v * (Fin 1 - p2v)) (Fin n2) (Fin 0))"
  defines "tost \<equiv> (\<lambda>se_w. Math_max (Fin 1 - normalCDF (safeDivide (d + Fin delta) se_w (Fin 0)))
                                   (normalCDF (safeDivide (d - Fin delta) se_w (Fin 0))))"
  defines "r_mn \<equiv> calculateEqResult cacheGet (Fin n1) (Fin s1) (Fin n2) (Fin s2) (Fin delta) (Fin alpha)
                     useContinuity ''mn''"
    and "r_fm \<equiv> calculateEqResult cacheGet (Fin n1) (Fin s1) (Fin n2) (Fin s2) (Fin delta) (Fin alpha)
                     useContinuity ''fm''"
  assumes fin: "isFinite z_alpha"
  shows "p_value r_mn = tost (se mn) \<and>
         ci_lower r_mn = score_result.ci_lower mn \<and>
         ci_upper r_mn = score_result.ci_upper mn \<and>
         isNonInferior r_mn = (ci_lower r_mn > - Fin delta \<and> ci_upper r_mn < Fin delta) \<and>
         (isFinite se_obs \<and> \<not> jeq se_obs (Fin 0) \<longrightarrow>
            p_value r_fm = tost se_obs \<and>
            ci_lower r_fm = d - z_alpha * se_obs \<and>
            ci_upper r_fm = d + z_alpha * se_obs \<and>
            isNonInferior r_fm = (ci_lower r_fm > - Fin delta \<and> ci_upper r_fm < Fin delta)) \<and>
         (\<not> isFinite se_obs \<or> jeq se_obs (Fin 0) \<longrightarrow>
            r_fm = zeroResult \<and> p_value r_fm = Fin 1 \<and> \<not> isNonInferior r_fm)"
  using fin
  unfolding r_mn_def r_fm_def tost_def se_obs_def mn_def z_alpha_def d_def p1v_def p2v_def
  by (simp add: calculateEqResult_def eqInterval_def eqTost_def safeNumber_def zeroResult_def Let_def)

text \<open>
  C7 as stated fails: with no success in either group of 10, margin 0.2, \<open>alpha = 0.05\<close>
  and method \<open>mn\<close>, the reported p-value is not the larger of the two one-sided p-values
  of the score chain re-run at \<open>delta0 = -0.2\<close> and at \<open>delta0 = +0.2\<close>.  The function
  takes its standard error from the chain at \<open>delta0 = 0\<close>, which is 0 here, so both
  statistics are 0 and the p-value is at least one half, while both chain p-values are
  below one half.
\<close>

theorem eq_p_value_not_from_chain_at_margins:
  "p_value (calculateEqResult (\<lambda>p. None) (Fin 10) (Fin 0) (Fin 10) (Fin 0) (Fin 0.2) (Fin 0.05) False ''mn'') \<noteq>
   Math_max
     (Fin 1 - normalCDF (z_score (calculateMNResult (Fin 0) (Fin 10) (Fin 0) (Fin 10) (Fin (- 0.2))
                                   (normalInverse (\<lambda>p. None) (Fin 1 - Fin 0.05 / Fin 2)))))
     (normalCDF (z_score (calculateMNResult (Fin 0) (Fin 10) (Fin 0) (Fin 10) (Fin 0.2)
                           (normalInverse (\<lambda>p. None) (Fin 1 - Fin 0.05 / Fin 2)))))"
proof -
  let ?v = "42105267368421 / 2500000000000000 :: real"
  let ?z = "0.2 / sqrt ?v"
  have "sqrt ?v < 0.13" by (rule real_less_lsqrt) (simp_all add: power2_eq_square)
  moreover have "0 < sqrt ?v" by simp
  ultimately have "1.1 * sqrt ?v \<le> 0.2" by simp
  then have z: "1.1 \<le> ?z" using \<open>0 < sqrt ?v\<close> by (simp add: pos_le_divide_eq)
  then have z0: "0 \<le> ?z" "- ?z < 0" by simp_all
  have tail: "hartTail ?z < 1 / 2" using z by (rule hartTail_below_half)
  have up: "normalCDF (Fin ?z) = Fin (1 - hartTail ?z)" using z0(1) by (rule normalCDF_nonneg)
  have lo: "normalCDF (Fin (- ?z)) = Fin (hartTail ?z)" using normalCDF_neg [OF z0(2)] by simp
  have zero: "normalCDF (Fin 0) = Fin (1 - hartTail 0)" by (rule normalCDF_nonneg) simp
  have code: "p_value (calculateEqResult (\<lambda>p. None) (Fin 10) (Fin 0) (Fin 10) (Fin 0) (Fin 0.2) (Fin 0.05)
        False ''mn'') = Fin (max (1 - (1 - hartTail 0)) (1 - hartTail 0))"
    unfolding zero_events_eq_p_value zero by (simp del: Math_max.simps)
  have chain: "Math_max
     (Fin 1 - normalCDF (z_score (calculateMNResult (Fin 0) (Fin 10) (Fin 0) (Fin 10) (Fin (- 0.2))
                                   (normalInverse (\<lambda>p. None) (Fin 1 - Fin 0.05 / Fin 2)))))
     (normalCDF (z_score (calculateMNResult (Fin 0) (Fin 10) (Fin 0) (Fin 10) (Fin 0.2)
                           (normalInverse (\<lambda>p. None) (Fin 1 - Fin 0.05 / Fin 2))))) =
     Fin (max (1 - (1 - hartTail ?z)) (hartTail ?z))"
    unfolding zero_events_chain_z minus_divide_left [symmetric] up lo by (simp del: Math_max.simps)
  have "max (1 - (1 - hartTail ?z)) (hartTail ?z) < 1 / 2" using tail by simp
  moreover have "1 / 2 \<le> max (1 - (1 - hartTail 0)) (1 - hartTail 0)" by (simp add: max_def)
  ultimately have "max (1 - (1 - hartTail 0)) (1 - hartTail 0) \<noteq> max (1 - (1 - hartTail ?z)) (hartTail ?z)"
    by linarith
  then show ?thesis unfolding code chain by simp
qed

theorem eq_result_tost_with_one_standard_error_witness:
  "isFinite (normalInverse (\<lambda>p. None) (Fin 1 - Fin 0.05 / Fin 2)) \<and>
   isFinite (Math_sqrt (safeDivide (safeDivide (Fin 25) (Fin 50) (Fin 0) * (Fin 1 - safeDivide (Fin 25) (Fin 50) (Fin 0))) (Fin 50) (Fin 0) +
                        safeDivide (safeDivide (Fin 25) (Fin 50) (Fin 0) * (Fin 1 - safeDivide (Fin 25) (Fin 50) (Fin 0))) (Fin 50) (Fin 0))) \<and>
   \<not> jeq (Math_sqrt (safeDivide (safeDivide (Fin 25) (Fin 50) (Fin 0) * (Fin 1 - safeDivide (Fin 25) (Fin 50) (Fin 0))) (Fin 50) (Fin 0) +
                        safeDivide (safeDivide (Fin 25) (Fin 50) (Fin 0) * (Fin 1 - safeDivide (Fin 25) (Fin 50) (Fin 0))) (Fin 50) (Fin 0))) (Fin 0) \<and>
   p_value (calculateEqResult (\<lambda>p. None) (Fin 50) (Fin 25) (Fin 50) (Fin 25) (Fin 0.15) (Fin 0.05) False ''mn'') =
     Math_max
       (Fin 1 - normalCDF (safeDivide (Fin 0.15)
          (se (calculateMNResult (Fin 25) (Fin 50) (Fin 25) (Fin 50) (Fin 0)
                (normalInverse (\<lambda>p. None) (Fin 1 - Fin 0.05 / Fin 2)))) (Fin 0)))
       (normalCDF (safeDivide (Fin (- 0.15))
          (se (calculateMNResult (Fin 25) (Fin 50) (Fin 25) (Fin 50) (Fin 0)
                (normalInverse (\<lambda>p. None) (Fin 1 - Fin 0.05 / Fin 2)))) (Fin 0))) \<and>
   p_value (calculateEqResult (\<lambda>p. None) (Fin 50) (Fin 25) (Fin 50) (Fin 25) (Fin 0.15) (Fin 0.05) False ''fm'') =
     Math_max
       (Fin 1 - normalCDF (safeDivide (Fin 0.15) (Fin (sqrt 0.01)) (Fin 0)))
       (normalCDF (safeDivide (Fin (- 0.15)) (Fin (sqrt 0.01)) (Fin 0))) \<and>
   jeq (Math_sqrt (safeDivide (safeDivide (Fin 0) (Fin 10) (Fin 0) * (Fin 1 - safeDivide (Fin 0) (Fin 10) (Fin 0))) (Fin 10) (Fin 0) +
                   safeDivide (safeDivide (Fin 0) (Fin 10) (Fin 0) * (Fin 1 - safeDivide (Fin 0) (Fin 10) (Fin 0))) (Fin 10) (Fin 0))) (Fin 0) \<and>
   calculateEqResult (\<lambda>p. None) (Fin 10) (Fin 0) (Fin 10) (Fin 0) (Fin 0.2) (Fin 0.05) False ''fm'' = zeroResult \<and>
   ci_lower zeroResult > - Fin 0.2 \<and> ci_upper zeroResult < Fin 0.2 \<and> \<not> isNonInferior zeroResult"
proof -
  have h: "isFinite (normalInverse (\<lambda>p. None) (Fin 1 - Fin 0.05 / Fin 2))"
    by (rule quantile_0975_finite)
  have p: "safeDivide (Fin 25) (Fin 50) (Fin 0) = Fin 0.5"
    by (simp add: safeDivide_def safeNumber_def Let_def)
  have v: "safeDivide (Fin 0.5 * (Fin 1 - Fin 0.5)) (Fin 50) (Fin 0) = Fin 0.005"
    by (simp add: safeDivide_def safeNumber_def Let_def)
  have s: "Math_sqrt (Fin 0.005 + Fin 0.005) = Fin (sqrt 0.01)" by simp
  have d: "Fin 0.5 - Fin 0.5 + Fin 0.15 = Fin 0.15" "Fin 0.5 - Fin 0.5 - Fin 0.15 = Fin (- 0.15)"
    by simp_all
  have f: "isFinite (Fin (sqrt 0.01)) \<and> \<not> jeq (Fin (sqrt 0.01)) (Fin 0)" by simp
  note t = eq_result_tost_with_one_standard_error [where cacheGet = "\<lambda>p. None" and alpha = "0.05"
      and ?n1.0 = 50 and ?s1.0 = 25 and ?n2.0 = 50 and ?s2.0 = 25 and delta = "0.15"
      and useContinuity = False, OF h]
  have t1: "p_value (calculateEqResult (\<lambda>p. None) (Fin 50) (Fin 25) (Fin 50) (Fin 25) (Fin 0.15) (Fin 0.05) False ''mn'') =
     Math_max
       (Fin 1 - normalCDF (safeDivide (Fin 0.15)
          (se (calculateMNResult (Fin 25) (Fin 50) (Fin 25) (Fin 50) (Fin 0)
                (normalInverse (\<lambda>p. None) (Fin 1 - Fin 0.05 / Fin 2)))) (Fin 0)))
       (normalCDF (safeDivide (Fin (- 0.15))
          (se (calculateMNResult (Fin 25) (Fin 50) (Fin 25) (Fin 50) (Fin 0)
                (normalInverse (\<lambda>p. None) (Fin 1 - Fin 0.05 / Fin 2)))) (Fin 0)))"
    using t [THEN conjunct1] unfolding if_False p d .
  have t2: "p_value (calculateEqResult (\<lambda>p. None) (Fin 50) (Fin 25) (Fin 50) (Fin 25) (Fin 0.15) (Fin 0.05) False ''fm'') =
     Math_max
       (Fin 1 - normalCDF (safeDivide (Fin 0.15) (Fin (sqrt 0.01)) (Fin 0)))
       (normalCDF (safeDivide (Fin (- 0.15)) (Fin (sqrt 0.01)) (Fin 0)))"
    using t [THEN conjunct2, THEN conjunct2, THEN conjunct2, THEN conjunct2, THEN conjunct1, THEN mp,
        THEN conjunct1]
      f unfolding if_False p v s d by blast
  have p0: "safeDivide (Fin 0) (Fin 10) (Fin 0) = Fin 0"
    by (simp add: safeDivide_def safeNumber_def Let_def)
  have v0: "safeDivide (Fin 0 * (Fin 1 - Fin 0)) (Fin 10) (Fin 0) = Fin 0"
    by (simp add: safeDivide_def safeNumber_def Let_def)
  have s0: "Math_sqrt (Fin 0 + Fin 0) = Fin 0" by simp
  have f0: "\<not> isFinite (Fin 0) \<or> jeq (Fin 0) (Fin 0)" by simp
  note u = eq_result_tost_with_one_standard_error [where cacheGet = "\<lambda>p. None" and alpha = "0.05"
      and ?n1.0 = 10 and ?s1.0 = 0 and ?n2.0 = 10 and ?s2.0 = 0 and delta = "0.2"
      and useContinuity = False, OF h]
  have u1: "calculateEqResult (\<lambda>p. None) (Fin 10) (Fin 0) (Fin 10) (Fin 0) (Fin 0.2) (Fin 0.05) False ''fm'' =
      zeroResult"
    using u [THEN conjunct2, THEN conjunct2, THEN conjunct2, THEN conjunct2, THEN conjunct2, THEN mp,
        THEN conjunct1]
      f0 unfolding if_False p0 v0 s0 by blast
  have z: "ci_lower zeroResult > - Fin 0.2 \<and> ci_upper zeroResult < Fin 0.2 \<and> \<not> isNonInferior zeroResult"
    by (simp add: zeroResult_def)
  have j: "jeq (Fin 0) (Fin 0)" by simp
  show ?thesis unfolding p v s p0 v0 s0 using h f t1 t2 u1 z j by blast
qed

end
